theory Spec2Isabelle
  imports Main "HOL-Library.Code_Target_Nat"
begin

section \<open>JavaScript values used by the clients\<close>

text \<open>
  Strings are lists of characters. The regular expressions of the source only look at
  ASCII characters, so a character outside ASCII never takes part in a match. The one
  text that is inspected beyond ASCII, the answer of the model (it is trimmed), is a
  list of UTF-16 code units.
  A thrown JavaScript error is a value: its class and its message (and the HTTP status
  and further fields the API error classes carry). The third field of a YouTubeAPIError
  is the text whose \<open>parseInt\<close> is the field \<open>retryAfter\<close>.
\<close>

datatype error =
    Error string
  | YouTubeAPIError string "nat option" "string option"
  | GeminiAPIError string "nat option"
  | NotionAPIError string "nat option" "string option"
  | ZodError string
  | SyntaxError string
  | TypeError string

fun error_message :: "error \<Rightarrow> string" where
  "error_message (Error m) = m"
| "error_message (YouTubeAPIError m _ _) = m"
| "error_message (GeminiAPIError m _) = m"
| "error_message (NotionAPIError m _ _) = m"
| "error_message (ZodError m) = m"
| "error_message (SyntaxError m) = m"
| "error_message (TypeError m) = m"

fun error_name :: "error \<Rightarrow> string" where
  "error_name (Error _) = ''Error''"
| "error_name (YouTubeAPIError _ _ _) = ''YouTubeAPIError''"
| "error_name (GeminiAPIError _ _) = ''GeminiAPIError''"
| "error_name (NotionAPIError _ _ _) = ''NotionAPIError''"
| "error_name (ZodError _) = ''ZodError''"
| "error_name (SyntaxError _) = ''SyntaxError''"
| "error_name (TypeError _) = ''TypeError''"

text \<open>
  The text a template literal gives for a caught error (\<open>Error.prototype.toString\<close>):
  the name alone when the message is empty, else name, colon, message.
\<close>

definition error_to_string :: "error \<Rightarrow> string" where
  "error_to_string e =
     (if error_message e = [] then error_name e else error_name e @ '': '' @ error_message e)"

text \<open>The quoted property name in the message of a failed property read.\<close>

definition cannot_read :: "string \<Rightarrow> string" where
  "cannot_read property =
     ''Cannot read properties of undefined (reading '' @ [CHR 0x27] @ property @ [CHR 0x27] @ '')''"

subsection \<open>Digits and decimal numbers\<close>

definition is_digit :: "char \<Rightarrow> bool" where
  "is_digit c = (let n = (of_char c :: nat) in 48 \<le> n \<and> n \<le> 57)"

definition digit_val :: "char \<Rightarrow> nat" where
  "digit_val c = (of_char c :: nat) - 48"

definition digit_char :: "nat \<Rightarrow> char" where
  "digit_char d = char_of (48 + d)"

text \<open>The decimal text of a number, as a template literal renders an integer.\<close>

fun digits_of :: "nat \<Rightarrow> string" where
  "digits_of n = (if n < 10 then [digit_char n] else digits_of (n div 10) @ [digit_char (n mod 10)])"

declare digits_of.simps [simp del]

text \<open>
  \<open>parseInt\<close> on a string of decimal digits: the value the digits denote. The number
  JavaScript holds is this value, rounded to a double from \<open>2^53\<close> on; it is positive
  exactly when the value is. Its text in a template literal is the decimal text below
  \<open>2^53\<close>; beyond, the text (of the rounded number, in exponent notation for large ones)
  is left to the engine and is a parameter.
\<close>

definition parseInt :: "string \<Rightarrow> nat" where
  "parseInt ds = foldl (\<lambda>acc c. acc * 10 + digit_val c) 0 ds"

definition number_text :: "(nat \<Rightarrow> string) \<Rightarrow> nat \<Rightarrow> string" where
  "number_text beyond n = (if n < 2 ^ 53 then digits_of n else beyond n)"

subsection \<open>Searching a string with a regular expression\<close>

text \<open>
  \<open>starts_with lit s\<close> matches the literal \<open>lit\<close> at the start of \<open>s\<close> and gives the
  rest of \<open>s\<close>. \<open>regex_search m s\<close> is the unanchored search of \<open>String.match\<close>: the
  matcher \<open>m\<close> is tried at position 0, 1, ... up to the end of the string, and the
  first position where it matches wins.
\<close>

fun starts_with :: "'a list \<Rightarrow> 'a list \<Rightarrow> 'a list option" where
  "starts_with [] s = Some s"
| "starts_with (l # ls) [] = None"
| "starts_with (l # ls) (c # cs) = (if l = c then starts_with ls cs else None)"

fun regex_search :: "(string \<Rightarrow> 'a option) \<Rightarrow> string \<Rightarrow> 'a option" where
  "regex_search m [] = m []"
| "regex_search m (c # cs) = (case m (c # cs) of Some r \<Rightarrow> Some r | None \<Rightarrow> regex_search m cs)"

section \<open>Video metadata client (lib/youtube-client.ts)\<close>

subsection \<open>extractVideoId\<close>

text \<open>The character class \<open>[a-zA-Z0-9_-]\<close>.\<close>

definition is_id_char :: "char \<Rightarrow> bool" where
  "is_id_char c = (let n = (of_char c :: nat) in
     (97 \<le> n \<and> n \<le> 122) \<or> (65 \<le> n \<and> n \<le> 90) \<or> (48 \<le> n \<and> n \<le> 57) \<or> n = 95 \<or> n = 45)"

text \<open>The group \<open>([a-zA-Z0-9_-]{11})\<close>: exactly eleven characters of the class.\<close>

fun id_chars :: "nat \<Rightarrow> string \<Rightarrow> string option" where
  "id_chars 0 s = Some []"
| "id_chars (Suc n) [] = None"
| "id_chars (Suc n) (c # cs) =
     (if is_id_char c then (case id_chars n cs of Some r \<Rightarrow> Some (c # r) | None \<Rightarrow> None) else None)"

definition literal_then_id :: "string \<Rightarrow> string \<Rightarrow> string option" where
  "literal_then_id lit s = (case starts_with lit s of None \<Rightarrow> None | Some r \<Rightarrow> id_chars 11 r)"

text \<open>An alternation tries its branches in order at one position.\<close>

fun first_alternative :: "string list \<Rightarrow> string \<Rightarrow> string option" where
  "first_alternative [] s = None"
| "first_alternative (lit # lits) s =
     (case literal_then_id lit s of Some r \<Rightarrow> Some r | None \<Rightarrow> first_alternative lits s)"

definition patterns :: "string list list" where
  "patterns = [[''youtube.com/watch?v='', ''youtu.be/'', ''youtube.com/embed/''], [''youtube.com/v/'']]"

fun first_pattern :: "string list list \<Rightarrow> string \<Rightarrow> error + string" where
  "first_pattern [] url = Inl (Error ''Invalid YouTube URL format'')"
| "first_pattern (p # ps) url =
     (case regex_search (first_alternative p) url of Some v \<Rightarrow> Inr v | None \<Rightarrow> first_pattern ps url)"

definition extractVideoId :: "string \<Rightarrow> error + string" where
  "extractVideoId url = first_pattern patterns url"

subsection \<open>parseDuration\<close>

text \<open>
  The expression is \<open>PT(?:(\d+)H)?(?:(\d+)M)?(?:(\d+)S)?\<close>. After the literal every
  group is optional, so the search succeeds at the first \<open>PT\<close> of the string. An
  optional group takes the longest run of digits and needs its unit letter right after
  it; a shorter run would be followed by a digit, so backtracking cannot help and the
  group is left out when the letter is missing.
\<close>

fun span_digits :: "string \<Rightarrow> string \<times> string" where
  "span_digits [] = ([], [])"
| "span_digits (c # cs) =
     (if is_digit c then (case span_digits cs of (ds, r) \<Rightarrow> (c # ds, r)) else ([], c # cs))"

definition optional_component :: "char \<Rightarrow> string \<Rightarrow> string option \<times> string" where
  "optional_component u s =
     (case span_digits s of
        (ds, r) \<Rightarrow>
          (case r of
             [] \<Rightarrow> (None, s)
           | c # r' \<Rightarrow> if ds \<noteq> [] \<and> c = u then (Some ds, r') else (None, s)))"

definition duration_groups :: "string \<Rightarrow> (string option \<times> string option \<times> string option) option" where
  "duration_groups s =
     (case starts_with ''PT'' s of
        None \<Rightarrow> None
      | Some r0 \<Rightarrow>
          (case optional_component CHR ''H'' r0 of
             (h, r1) \<Rightarrow>
               (case optional_component CHR ''M'' r1 of
                  (m, r2) \<Rightarrow>
                    (case optional_component CHR ''S'' r2 of
                       (sec, r3) \<Rightarrow> Some (h, m, sec)))))"

text \<open>\<open>parts.join(' ')\<close>\<close>

fun join_space :: "string list \<Rightarrow> string" where
  "join_space [] = []"
| "join_space [p] = p"
| "join_space (p # q # ps) = p @ '' '' @ join_space (q # ps)"

definition group_value :: "string option \<Rightarrow> nat" where
  "group_value g = (case g of None \<Rightarrow> 0 | Some ds \<Rightarrow> parseInt ds)"

definition parseDuration :: "(nat \<Rightarrow> string) \<Rightarrow> string \<Rightarrow> string" where
  "parseDuration beyond duration =
     (case regex_search duration_groups duration of
        None \<Rightarrow> duration
      | Some (g1, g2, g3) \<Rightarrow>
          (let hours = group_value g1; minutes = group_value g2; seconds = group_value g3;
               parts = (if hours > 0 then [number_text beyond hours @ ''h''] else [])
                     @ (if minutes > 0 then [number_text beyond minutes @ ''m''] else [])
                     @ (if seconds > 0 then [number_text beyond seconds @ ''s''] else [])
           in if join_space parts = [] then ''0s'' else join_space parts))"

text \<open>
  A duration code that consists of the time part only, with its optional hour, minute
  and second component, and the rendering the specification describes: a component that
  is absent or 0 is left out, and a duration with nothing left renders as \<open>0s\<close>.
\<close>

definition duration_component :: "nat option \<Rightarrow> char \<Rightarrow> string" where
  "duration_component c u = (case c of None \<Rightarrow> [] | Some n \<Rightarrow> digits_of n @ [u])"

definition iso_duration :: "nat option \<Rightarrow> nat option \<Rightarrow> nat option \<Rightarrow> string" where
  "iso_duration h m s =
     ''PT'' @ duration_component h CHR ''H'' @ duration_component m CHR ''M''
            @ duration_component s CHR ''S''"

text \<open>A duration code with a day part before the time part.\<close>

definition dated_duration :: "nat \<Rightarrow> nat option \<Rightarrow> nat option \<Rightarrow> nat option \<Rightarrow> string" where
  "dated_duration days h m s =
     ''P'' @ digits_of days @ ''DT'' @ duration_component h CHR ''H''
           @ duration_component m CHR ''M'' @ duration_component s CHR ''S''"

definition shown_component :: "(nat \<Rightarrow> string) \<Rightarrow> nat option \<Rightarrow> char \<Rightarrow> string list" where
  "shown_component beyond c u =
     (case c of None \<Rightarrow> [] | Some n \<Rightarrow> if n = 0 then [] else [number_text beyond n @ [u]])"

definition rendered_duration ::
  "(nat \<Rightarrow> string) \<Rightarrow> nat option \<Rightarrow> nat option \<Rightarrow> nat option \<Rightarrow> string" where
  "rendered_duration beyond h m s =
     (let parts = shown_component beyond h CHR ''h'' @ shown_component beyond m CHR ''m''
                @ shown_component beyond s CHR ''s''
      in if parts = [] then ''0s'' else join_space parts)"

section \<open>The world the tools run in\<close>

text \<open>
  A tool handler reads and writes the relational store and talks to three HTTP services.
  Everything outside the program is an explicit part of the state: the tables, the
  check constraint on the task type, a script saying which of the next connection
  attempts to the store fail, and, for each HTTP service, the script of the outcomes of
  the next calls of \<open>fetch\<close> (a call after the end of the script is rejected as a network
  failure). Every effect is appended to a log, so that "no external call and no write"
  is the statement that the world is unchanged. The log keeps the method and the URL
  path of a request; query parameters (among them the API key) and bodies are left out.
\<close>

datatype task_status = pending | in_progress | completed | blocked

datatype sync_status = not_synced | syncing | synced | failed

text \<open>PRPTask and PRPContent, as the extraction client returns them.\<close>

record prp_task =
  pt_id :: string
  pt_prp_id :: string
  pt_order :: nat
  pt_title :: string
  pt_description :: string
  pt_type :: string
  pt_file_path :: "string option"
  pt_pseudocode :: "string option"
  pt_status :: task_status

record prp_doc =
  doc_type :: string
  doc_path :: string
  doc_why :: string

record prp_content =
  pc_name :: string
  pc_description :: string
  pc_goal :: string
  pc_why :: "string list"
  pc_what :: string
  pc_success_criteria :: "string list"
  pc_documentation :: "prp_doc list"
  pc_codebase_tree :: "string option"
  pc_gotchas :: "string list"
  pc_tasks :: "prp_task list"

record video_metadata =
  vm_id :: string
  vm_title :: string
  vm_description :: string
  vm_channelTitle :: string
  vm_publishedAt :: string
  vm_duration :: string

text \<open>
  Rows of \<open>parsed_prps\<close> and \<open>prp_tasks\<close> (migration 001), without the columns that no
  handler modelled here reads back (video description, publication date, duration,
  creation time of the PRP). Ids are opaque; timestamps are readings of the clock.
\<close>

type_synonym uuid = nat

record prp_row =
  prp_id :: uuid
  prp_youtube_url :: string
  prp_video_id :: string
  prp_video_title :: string
  prp_channel_title :: string
  prp_transcript :: string
  prp_parsed_content :: prp_content
  prp_created_by :: string
  prp_updated_at :: nat
  prp_notion_page_id :: "string option"
  prp_notion_sync_status :: sync_status
  prp_notion_sync_error :: "string option"
  prp_notion_synced_at :: "nat option"

record task_row =
  task_id :: uuid
  task_prp_id :: uuid
  task_order_num :: nat
  task_title :: string
  task_description :: string
  task_type :: string
  task_file_path :: "string option"
  task_pseudocode :: "string option"
  task_status :: task_status
  task_created_at :: nat
  task_updated_at :: nat
  task_completed_at :: "nat option"
  task_completed_by :: "string option"

subsection \<open>HTTP\<close>

text \<open>
  A response has a status, the \<open>Retry-After\<close> header, its text and what
  \<open>response.json()\<close> gives for it: the decoded body, or the message of the SyntaxError
  it throws when the text is not JSON.
\<close>

record 'j response =
  resp_status :: nat
  resp_retry_after :: "string option"
  resp_text :: string
  resp_json :: "string + 'j"

datatype 'j fetch_outcome = FetchRejects error | FetchResolves "'j response"

definition resp_ok :: "'j response \<Rightarrow> bool" where
  "resp_ok r = (200 \<le> resp_status r \<and> resp_status r \<le> 299)"

text \<open>
  Bodies of the video API: \<open>items\<close> (absent or a list) of video resources or caption
  tracks. Bodies of the generative API: \<open>candidates\<close> (absent or a list), each reduced
  to \<open>content.parts[0].text\<close> (absent when a link of that chain is). Bodies of the
  document store: the object's \<open>id\<close>, the \<open>results\<close> of a query (their ids), and the
  \<open>message\<close> and \<open>code\<close> of an error body.
\<close>

record video_resource =
  vr_id :: string
  vr_title :: string
  vr_description :: string
  vr_channelTitle :: string
  vr_publishedAt :: string
  vr_duration :: string

datatype yt_item = VideoItem video_resource | CaptionItem string

type_synonym yt_json = "yt_item list option"

type_synonym js_text = "nat list"

type_synonym gemini_json = "js_text option list option"

record notion_json =
  nj_id :: string
  nj_results :: "string list option"
  nj_message :: "string option"
  nj_code :: "string option"

datatype client = YouTube | Gemini | Notion

datatype effect =
    HttpRequest client string string
  | Backoff client nat
  | DbConnect

record world =
  parsed_prps :: "prp_row list"
  prp_tasks :: "task_row list"
  prp_tasks_type_check :: "string list"
  db_outages :: "bool list"
  next_uuid :: nat
  clock :: nat
  YOUTUBE_API_KEY :: string
  GEMINI_API_KEY :: string
  NOTION_TOKEN :: string
  youtube_net :: "yt_json fetch_outcome list"
  gemini_net :: "gemini_json fetch_outcome list"
  notion_net :: "notion_json fetch_outcome list"
  effects :: "effect list"

subsection \<open>The runtime\<close>

text \<open>
  The text of the model, once \<open>JSON.parse\<close> accepts it, is an object with the sections of
  a PRP, an array of task-like objects, or some other JSON value. A field is \<open>None\<close> when
  it is absent, \<open>null\<close> or not a string (not an array, for the lists).
\<close>

record raw_task =
  rt_title :: "string option"
  rt_description :: "string option"
  rt_type :: "string option"
  rt_file_path :: "string option"
  rt_pseudocode :: "string option"

record validated_task =
  vt_title :: string
  vt_description :: string
  vt_type :: string
  vt_file_path :: "string option"
  vt_pseudocode :: "string option"

record raw_doc =
  rd_type :: "string option"
  rd_path :: "string option"
  rd_why :: "string option"

record raw_prp =
  rp_name :: "string option"
  rp_description :: "string option"
  rp_goal :: "string option"
  rp_why :: "string list option"
  rp_what :: "string option"
  rp_success_criteria :: "string list option"
  rp_has_context :: bool
  rp_documentation :: "raw_doc list option"
  rp_codebase_tree :: "string option"
  rp_gotchas :: "string list option"
  rp_tasks :: "raw_task list option"

datatype ai_json = AiObject raw_prp | AiArray "raw_task list" | AiOther

text \<open>
  What the program takes from the engine and from the validation library without
  determining it: \<open>JSON.parse\<close> (a value, or the message of its SyntaxError), the message
  of the ZodError for a value the schema rejects, and the text of a number from \<open>2^53\<close>
  on.
\<close>

record runtime =
  JSON_parse :: "js_text \<Rightarrow> string + ai_json"
  zod_message :: "ai_json \<Rightarrow> string"
  large_number_text :: "nat \<Rightarrow> string"

text \<open>Asynchronous code that may throw: a function of the world giving a result or an error.\<close>

definition return_io :: "'a \<Rightarrow> world \<Rightarrow> (error + 'a) \<times> world" where
  "return_io x w = (Inr x, w)"

definition throw_io :: "error \<Rightarrow> world \<Rightarrow> (error + 'a) \<times> world" where
  "throw_io e w = (Inl e, w)"

definition bind_io ::
  "(world \<Rightarrow> (error + 'a) \<times> world) \<Rightarrow> ('a \<Rightarrow> world \<Rightarrow> (error + 'b) \<times> world)
     \<Rightarrow> world \<Rightarrow> (error + 'b) \<times> world" where
  "bind_io m f w = (case m w of (Inl e, w1) \<Rightarrow> (Inl e, w1) | (Inr x, w1) \<Rightarrow> f x w1)"

definition catch_io ::
  "(world \<Rightarrow> (error + 'a) \<times> world) \<Rightarrow> (error \<Rightarrow> world \<Rightarrow> (error + 'a) \<times> world)
     \<Rightarrow> world \<Rightarrow> (error + 'a) \<times> world" where
  "catch_io m h w = (case m w of (Inl e, w1) \<Rightarrow> h e w1 | (Inr x, w1) \<Rightarrow> (Inr x, w1))"

definition log_effect :: "effect \<Rightarrow> world \<Rightarrow> world" where
  "log_effect e w = w\<lparr>effects := effects w @ [e]\<rparr>"

subsection \<open>Retry constants and backoff\<close>

definition maxRetries :: nat where
  "maxRetries = 3"

definition baseDelay :: nat where
  "baseDelay = 1000"

text \<open>
  \<open>delay(attempt)\<close> sleeps \<open>baseDelay * 2^attempt\<close> ms plus a random jitter below one
  second; the log keeps the deterministic part.
\<close>

definition delay :: "client \<Rightarrow> nat \<Rightarrow> world \<Rightarrow> world" where
  "delay c attempt w = log_effect (Backoff c (baseDelay * 2 ^ attempt)) w"

definition fetch_youtube :: "string \<Rightarrow> world \<Rightarrow> yt_json fetch_outcome \<times> world" where
  "fetch_youtube url w =
     (case youtube_net w of
        [] \<Rightarrow> (FetchRejects (TypeError ''fetch failed''), log_effect (HttpRequest YouTube ''GET'' url) w)
      | r # rs \<Rightarrow> (r, log_effect (HttpRequest YouTube ''GET'' url) (w\<lparr>youtube_net := rs\<rparr>)))"

definition fetch_gemini :: "string \<Rightarrow> world \<Rightarrow> gemini_json fetch_outcome \<times> world" where
  "fetch_gemini url w =
     (case gemini_net w of
        [] \<Rightarrow> (FetchRejects (TypeError ''fetch failed''), log_effect (HttpRequest Gemini ''POST'' url) w)
      | r # rs \<Rightarrow> (r, log_effect (HttpRequest Gemini ''POST'' url) (w\<lparr>gemini_net := rs\<rparr>)))"

definition fetch_notion :: "string \<Rightarrow> string \<Rightarrow> world \<Rightarrow> notion_json fetch_outcome \<times> world" where
  "fetch_notion method url w =
     (case notion_net w of
        [] \<Rightarrow> (FetchRejects (TypeError ''fetch failed''), log_effect (HttpRequest Notion method url) w)
      | r # rs \<Rightarrow> (r, log_effect (HttpRequest Notion method url) (w\<lparr>notion_net := rs\<rparr>)))"

subsection \<open>YouTubeClient.makeRequest\<close>

text \<open>
  \<open>response.headers.get('Retry-After') || '60'\<close>: the text handed to \<open>parseInt\<close>.
\<close>

definition retry_after_text :: "string option \<Rightarrow> string" where
  "retry_after_text h = (case h of None \<Rightarrow> ''60'' | Some v \<Rightarrow> if v = [] then ''60'' else v)"

text \<open>
  The loop \<open>for (attempt = 0; attempt < maxRetries; attempt++)\<close>. A status 429 sleeps and
  continues unless this is the last attempt; an API error thrown inside \<open>try\<close> is
  rethrown by \<open>catch\<close>; anything else thrown there (a rejected \<open>fetch\<close>, a body that is
  not JSON) sleeps and goes round again unless this is the last attempt.
\<close>

function youtube_loop :: "nat \<Rightarrow> string \<Rightarrow> world \<Rightarrow> (error + yt_json) \<times> world" where
  "youtube_loop attempt url w =
     (if attempt < maxRetries then
        (case fetch_youtube url w of
           (FetchRejects err, w1) \<Rightarrow>
             if attempt = maxRetries - 1
             then (Inl (Error (''YouTube API request failed after '' @ digits_of maxRetries
                                @ '' attempts: '' @ error_to_string err)), w1)
             else youtube_loop (attempt + 1) url (delay YouTube attempt w1)
         | (FetchResolves r, w1) \<Rightarrow>
             if resp_status r = 429 then
               (if attempt < maxRetries - 1
                then youtube_loop (attempt + 1) url (delay YouTube attempt w1)
                else (Inl (YouTubeAPIError ''YouTube API rate limit exceeded'' (Some 429)
                             (Some (retry_after_text (resp_retry_after r)))), w1))
             else if \<not> resp_ok r then
               (Inl (YouTubeAPIError (''YouTube API error: '' @ digits_of (resp_status r) @ '' - ''
                                       @ resp_text r) (Some (resp_status r)) None), w1)
             else
               (case resp_json r of
                  Inr j \<Rightarrow> (Inr j, w1)
                | Inl complaint \<Rightarrow>
                    if attempt = maxRetries - 1
                    then (Inl (Error (''YouTube API request failed after '' @ digits_of maxRetries
                                       @ '' attempts: ''
                                       @ error_to_string (SyntaxError complaint))), w1)
                    else youtube_loop (attempt + 1) url (delay YouTube attempt w1)))
      else (Inl (Error ''YouTube API request failed''), w))"
  by pat_completeness auto
termination
  by (relation "measure (\<lambda>(attempt, url, w). maxRetries - attempt)") auto

declare youtube_loop.simps [simp del]

definition youtube_baseUrl :: string where
  "youtube_baseUrl = ''https://www.googleapis.com/youtube/v3''"

definition youtube_makeRequest :: "string \<Rightarrow> world \<Rightarrow> (error + yt_json) \<times> world" where
  "youtube_makeRequest endpoint w = youtube_loop 0 (youtube_baseUrl @ ''/'' @ endpoint) w"

subsection \<open>getVideoMetadata and getVideoTranscript\<close>

definition getVideoMetadata ::
  "runtime \<Rightarrow> string \<Rightarrow> world \<Rightarrow> (error + video_metadata) \<times> world" where
  "getVideoMetadata rt videoId =
     bind_io (youtube_makeRequest ''videos'') (\<lambda>response.
       case response of
         None \<Rightarrow> throw_io (Error (''Video not found: '' @ videoId))
       | Some [] \<Rightarrow> throw_io (Error (''Video not found: '' @ videoId))
       | Some (VideoItem item # rest) \<Rightarrow>
           return_io \<lparr> vm_id = vr_id item, vm_title = vr_title item,
                       vm_description = vr_description item,
                       vm_channelTitle = vr_channelTitle item,
                       vm_publishedAt = vr_publishedAt item,
                       vm_duration = parseDuration (large_number_text rt) (vr_duration item) \<rparr>
       | Some (CaptionItem l # rest) \<Rightarrow>
           throw_io (TypeError (cannot_read ''duration'')))"

text \<open>
  \<open>items.find(item => language === 'en' || language.startsWith('en-')) || items[0]\<close>; an
  item without a language makes \<open>startsWith\<close> throw.
\<close>

fun find_caption :: "yt_item list \<Rightarrow> error + yt_item option" where
  "find_caption [] = Inr None"
| "find_caption (CaptionItem l # rest) =
     (if l = ''en'' \<or> starts_with ''en-'' l \<noteq> None then Inr (Some (CaptionItem l))
      else find_caption rest)"
| "find_caption (VideoItem v # rest) =
     Inl (TypeError (cannot_read ''startsWith''))"

definition not_available_label :: string where
  "not_available_label =
     ''[Transcript not available via API. Using video description as fallback]'' @ [CHR 0x0A, CHR 0x0A]"

definition extraction_failed_label :: string where
  "extraction_failed_label =
     ''[Transcript extraction failed. Using video description]'' @ [CHR 0x0A, CHR 0x0A]"

definition getVideoTranscript :: "runtime \<Rightarrow> string \<Rightarrow> world \<Rightarrow> (error + string) \<times> world" where
  "getVideoTranscript rt videoId =
     catch_io
       (bind_io (youtube_makeRequest ''captions'') (\<lambda>captionsResponse.
          case captionsResponse of
            None \<Rightarrow> throw_io (Error ''No captions available'')
          | Some [] \<Rightarrow> throw_io (Error ''No captions available'')
          | Some (i # items) \<Rightarrow>
              (case find_caption (i # items) of
                 Inl e \<Rightarrow> throw_io e
               | Inr caption \<Rightarrow>
                   bind_io (getVideoMetadata rt videoId) (\<lambda>metadata.
                     return_io (not_available_label @ vm_description metadata)))))
       (\<lambda>error.
          bind_io (getVideoMetadata rt videoId) (\<lambda>metadata.
            return_io (extraction_failed_label @ vm_description metadata)))"

subsection \<open>GeminiClient.makeRequest (lib/gemini-client.ts)\<close>

function gemini_loop :: "nat \<Rightarrow> string \<Rightarrow> world \<Rightarrow> (error + js_text) \<times> world" where
  "gemini_loop attempt url w =
     (if attempt < maxRetries then
        (case fetch_gemini url w of
           (FetchRejects err, w1) \<Rightarrow>
             if attempt = maxRetries - 1
             then (Inl (Error (''Gemini API request failed after '' @ digits_of maxRetries
                                @ '' attempts: '' @ error_to_string err)), w1)
             else gemini_loop (attempt + 1) url (delay Gemini attempt w1)
         | (FetchResolves r, w1) \<Rightarrow>
             if resp_status r = 429 then
               (if attempt < maxRetries - 1
                then gemini_loop (attempt + 1) url (delay Gemini attempt w1)
                else (Inl (GeminiAPIError ''Gemini API rate limit exceeded'' (Some 429)), w1))
             else if \<not> resp_ok r then
               (Inl (GeminiAPIError (''Gemini API error: '' @ digits_of (resp_status r) @ '' - ''
                                      @ resp_text r) (Some (resp_status r))), w1)
             else
               (case resp_json r of
                  Inl complaint \<Rightarrow>
                    if attempt = maxRetries - 1
                    then (Inl (Error (''Gemini API request failed after '' @ digits_of maxRetries
                                       @ '' attempts: ''
                                       @ error_to_string (SyntaxError complaint))), w1)
                    else gemini_loop (attempt + 1) url (delay Gemini attempt w1)
                | Inr None \<Rightarrow>
                    (Inl (GeminiAPIError ''No response generated from Gemini API'' None), w1)
                | Inr (Some []) \<Rightarrow>
                    (Inl (GeminiAPIError ''No response generated from Gemini API'' None), w1)
                | Inr (Some (candidate # rest)) \<Rightarrow>
                    (case candidate of
                       None \<Rightarrow>
                         (Inl (GeminiAPIError ''Invalid response structure from Gemini API'' None), w1)
                     | Some text \<Rightarrow>
                         if text = []
                         then (Inl (GeminiAPIError ''Invalid response structure from Gemini API'' None), w1)
                         else (Inr text, w1))))
      else (Inl (Error ''Gemini API request failed''), w))"
  by pat_completeness auto
termination
  by (relation "measure (\<lambda>(attempt, url, w). maxRetries - attempt)") auto

declare gemini_loop.simps [simp del]

definition gemini_url :: string where
  "gemini_url = ''https://generativelanguage.googleapis.com/v1beta/models/gemini-2.0-flash-exp:generateContent''"

definition gemini_makeRequest :: "world \<Rightarrow> (error + js_text) \<times> world" where
  "gemini_makeRequest w = gemini_loop 0 gemini_url w"

subsection \<open>NotionClient.makeRequest (lib/notion-client.ts)\<close>

function notion_loop :: "nat \<Rightarrow> string \<Rightarrow> string \<Rightarrow> world \<Rightarrow> (error + notion_json) \<times> world" where
  "notion_loop attempt method url w =
     (if attempt < maxRetries then
        (case fetch_notion method url w of
           (FetchRejects err, w1) \<Rightarrow>
             if attempt = maxRetries - 1
             then (Inl (Error (''Notion API request failed after '' @ digits_of maxRetries
                                @ '' attempts: '' @ error_to_string err)), w1)
             else notion_loop (attempt + 1) method url (delay Notion attempt w1)
         | (FetchResolves r, w1) \<Rightarrow>
             if resp_status r = 429 then
               (if attempt < maxRetries - 1
                then notion_loop (attempt + 1) method url (delay Notion attempt w1)
                else (Inl (NotionAPIError ''Notion API rate limit exceeded'' (Some 429) None), w1))
             else
               (case resp_json r of
                  Inl complaint \<Rightarrow>
                    if attempt = maxRetries - 1
                    then (Inl (Error (''Notion API request failed after '' @ digits_of maxRetries
                                       @ '' attempts: ''
                                       @ error_to_string (SyntaxError complaint))), w1)
                    else notion_loop (attempt + 1) method url (delay Notion attempt w1)
                | Inr j \<Rightarrow>
                    if \<not> resp_ok r then
                      (Inl (NotionAPIError
                              (case nj_message j of
                                 None \<Rightarrow> ''Notion API error: '' @ digits_of (resp_status r)
                               | Some m \<Rightarrow> if m = [] then ''Notion API error: '' @ digits_of (resp_status r)
                                           else m)
                              (Some (resp_status r)) (nj_code j)), w1)
                    else (Inr j, w1)))
      else (Inl (Error ''Notion API request failed''), w))"
  by pat_completeness auto
termination
  by (relation "measure (\<lambda>(attempt, method, url, w). maxRetries - attempt)") auto

declare notion_loop.simps [simp del]

definition notion_baseUrl :: string where
  "notion_baseUrl = ''https://api.notion.com/v1''"

definition notion_makeRequest :: "string \<Rightarrow> string \<Rightarrow> world \<Rightarrow> (error + notion_json) \<times> world" where
  "notion_makeRequest method endpoint w = notion_loop 0 method (notion_baseUrl @ ''/'' @ endpoint) w"

section \<open>Extraction client (lib/gemini-client.ts)\<close>

definition TASK_TYPES :: "string list" where
  "TASK_TYPES = [''create'', ''modify'', ''test'', ''deploy'', ''analyze'', ''design'',
                 ''document'', ''research'', ''review'', ''other'']"

definition DOC_TYPES :: "string list" where
  "DOC_TYPES = [''url'', ''file'', ''docfile'']"

text \<open>\<open>x || null\<close> and \<open>x || d\<close> on an optional string: the empty string is falsy.\<close>

definition or_null :: "string option \<Rightarrow> string option" where
  "or_null x = (case x of None \<Rightarrow> None | Some s \<Rightarrow> if s = [] then None else Some s)"

definition or_default :: "string option \<Rightarrow> string \<Rightarrow> string" where
  "or_default x d = (case x of None \<Rightarrow> d | Some s \<Rightarrow> if s = [] then d else s)"

definition truthy :: "string option \<Rightarrow> bool" where
  "truthy x = (case x of None \<Rightarrow> False | Some s \<Rightarrow> s \<noteq> [])"

fun all_some :: "'a option list \<Rightarrow> 'a list option" where
  "all_some [] = Some []"
| "all_some (None # xs) = None"
| "all_some (Some x # xs) = (case all_some xs of None \<Rightarrow> None | Some ys \<Rightarrow> Some (x # ys))"

text \<open>The entry for one task and one documentation item of \<open>PRPResponseSchema\<close>.\<close>

definition schema_task :: "raw_task \<Rightarrow> validated_task option" where
  "schema_task t =
     (case (rt_title t, rt_description t, rt_type t) of
        (Some ti, Some d, Some ty) \<Rightarrow>
          if ty \<in> set TASK_TYPES
          then Some \<lparr> vt_title = ti, vt_description = d, vt_type = ty,
                      vt_file_path = rt_file_path t, vt_pseudocode = rt_pseudocode t \<rparr>
          else None
      | _ \<Rightarrow> None)"

definition schema_doc :: "raw_doc \<Rightarrow> prp_doc option" where
  "schema_doc d =
     (case (rd_type d, rd_path d, rd_why d) of
        (Some ty, Some p, Some y) \<Rightarrow>
          if ty \<in> set DOC_TYPES then Some \<lparr> doc_type = ty, doc_path = p, doc_why = y \<rparr> else None
      | _ \<Rightarrow> None)"

text \<open>
  \<open>PRPResponseSchema.parse\<close> followed by the transformation of \<open>parsePRPContent\<close>: the
  validated sections, and the tasks numbered from 1 with status pending.
\<close>

definition content_task :: "nat \<times> validated_task \<Rightarrow> prp_task" where
  "content_task it =
     (case it of
        (index, task) \<Rightarrow>
          \<lparr> pt_id = [], pt_prp_id = [], pt_order = index + 1,
            pt_title = vt_title task,
            pt_description = vt_description task,
            pt_type = vt_type task,
            pt_file_path = or_null (vt_file_path task),
            pt_pseudocode = or_null (vt_pseudocode task),
            pt_status = pending \<rparr>)"

definition PRPResponseSchema_parse :: "runtime \<Rightarrow> ai_json \<Rightarrow> error + prp_content" where
  "PRPResponseSchema_parse rt j =
     (case j of
        AiObject p \<Rightarrow>
          (case (rp_name p, rp_description p, rp_goal p, rp_why p, rp_what p,
                 rp_success_criteria p) of
             (Some n, Some d, Some g, Some y, Some wh, Some sc) \<Rightarrow>
               (case (if rp_has_context p then rp_documentation p else None, rp_gotchas p,
                      rp_tasks p) of
                  (Some docs, Some gs, Some ts) \<Rightarrow>
                    (case (all_some (map schema_doc docs), all_some (map schema_task ts)) of
                       (Some vdocs, Some vts) \<Rightarrow>
                         Inr \<lparr> pc_name = n, pc_description = d, pc_goal = g, pc_why = y,
                               pc_what = wh, pc_success_criteria = sc,
                               pc_documentation = vdocs,
                               pc_codebase_tree = rp_codebase_tree p, pc_gotchas = gs,
                               pc_tasks = map content_task (enumerate 0 vts) \<rparr>
                     | _ \<Rightarrow> Inl (ZodError (zod_message rt j)))
                | _ \<Rightarrow> Inl (ZodError (zod_message rt j)))
           | _ \<Rightarrow> Inl (ZodError (zod_message rt j)))
      | _ \<Rightarrow> Inl (ZodError (zod_message rt j)))"

text \<open>
  \<open>String.prototype.trim\<close> removes the white space and line terminator code units of
  the language from both ends: tab to carriage return, space, U+00A0, U+1680, U+2000
  to U+200A, U+2028, U+2029, U+202F, U+205F, U+3000 and U+FEFF.
\<close>

definition is_white_space :: "nat \<Rightarrow> bool" where
  "is_white_space n =
     ((9 \<le> n \<and> n \<le> 13) \<or> n = 32 \<or> n = 160 \<or> n = 5760 \<or> (8192 \<le> n \<and> n \<le> 8202)
      \<or> n = 8232 \<or> n = 8233 \<or> n = 8239 \<or> n = 8287 \<or> n = 12288 \<or> n = 65279)"

definition js_trim :: "js_text \<Rightarrow> js_text" where
  "js_trim s = rev (dropWhile is_white_space (rev (dropWhile is_white_space s)))"

text \<open>The code units of an ASCII literal.\<close>

definition units :: "string \<Rightarrow> js_text" where
  "units s = map of_char s"

text \<open>Stripping the optional code fence around the model's text.\<close>

definition fence :: js_text where
  "fence = [96, 96, 96]"

definition clean_response :: "js_text \<Rightarrow> js_text" where
  "clean_response response =
     (let c0 = js_trim response;
          c1 = (case starts_with (fence @ units ''json'') c0 of Some r \<Rightarrow> r | None \<Rightarrow> c0);
          c2 = (case starts_with fence c1 of Some r \<Rightarrow> r | None \<Rightarrow> c1);
          c3 = (if starts_with (rev fence) (rev c2) \<noteq> None then take (length c2 - 3) c2 else c2)
      in js_trim c3)"

definition parsePRPContent ::
  "runtime \<Rightarrow> string \<Rightarrow> video_metadata \<Rightarrow> world \<Rightarrow> (error + prp_content) \<times> world" where
  "parsePRPContent rt transcript metadata =
     catch_io
       (bind_io gemini_makeRequest (\<lambda>response.
          case JSON_parse rt (clean_response response) of
            Inl complaint \<Rightarrow> throw_io (SyntaxError complaint)
          | Inr parsedContent \<Rightarrow>
              (case PRPResponseSchema_parse rt parsedContent of
                 Inl e \<Rightarrow> throw_io e
               | Inr content \<Rightarrow> return_io content)))
       (\<lambda>error.
          case error of
            ZodError m \<Rightarrow> throw_io (Error (''Invalid PRP structure from AI: '' @ m))
          | SyntaxError m \<Rightarrow> throw_io (Error (''Invalid JSON response from AI: '' @ m))
          | _ \<Rightarrow> throw_io error)"

text \<open>GeminiClient.extractTasks: at most \<open>maxTasks\<close> tasks, defaults for missing fields.\<close>

definition extracted_task :: "nat \<Rightarrow> nat \<times> raw_task \<Rightarrow> prp_task" where
  "extracted_task existing it =
     (case it of
        (index, task) \<Rightarrow>
          \<lparr> pt_id = [], pt_prp_id = [], pt_order = existing + index + 1,
            pt_title = or_default (rt_title task) (''Task '' @ digits_of (index + 1)),
            pt_description = or_default (rt_description task) [],
            pt_type = or_default (rt_type task) ''other'',
            pt_file_path = or_null (rt_file_path task),
            pt_pseudocode = or_null (rt_pseudocode task),
            pt_status = pending \<rparr>)"

definition gemini_extractTasks ::
  "runtime \<Rightarrow> prp_content \<Rightarrow> nat \<Rightarrow> world \<Rightarrow> (error + prp_task list) \<times> world" where
  "gemini_extractTasks rt prpContent maxTasks =
     catch_io
       (bind_io gemini_makeRequest (\<lambda>response.
          case JSON_parse rt (clean_response response) of
            Inl complaint \<Rightarrow> throw_io (SyntaxError complaint)
          | Inr (AiArray tasks) \<Rightarrow>
              return_io (map (extracted_task (length (pc_tasks prpContent)))
                             (enumerate 0 (take maxTasks tasks)))
          | Inr _ \<Rightarrow> throw_io (Error ''Expected array of tasks from AI'')))
       (\<lambda>error.
          case error of
            SyntaxError m \<Rightarrow> throw_io (Error (''Invalid JSON response from AI: '' @ m))
          | _ \<Rightarrow> throw_io error)"

section \<open>Document-sync client (lib/notion-client.ts)\<close>

text \<open>
  The constructors of the three clients refuse an empty credential. The request bodies
  (page properties and content blocks) do not influence the control flow and are not
  part of the model.
\<close>

definition new_client :: "string \<Rightarrow> string \<Rightarrow> world \<Rightarrow> (error + unit) \<times> world" where
  "new_client credential complaint = (if credential = [] then throw_io (Error complaint) else return_io ())"

definition validateDatabase :: "string \<Rightarrow> world \<Rightarrow> (error + bool) \<times> world" where
  "validateDatabase databaseId =
     catch_io
       (bind_io (notion_makeRequest ''GET'' (''databases/'' @ databaseId)) (\<lambda>r. return_io True))
       (\<lambda>error.
          case error of
            NotionAPIError m (Some st) c \<Rightarrow> if st = 404 then return_io False else throw_io error
          | _ \<Rightarrow> throw_io error)"

definition createDatabasePage :: "string \<Rightarrow> prp_content \<Rightarrow> world \<Rightarrow> (error + string) \<times> world" where
  "createDatabasePage databaseId prp =
     bind_io (validateDatabase databaseId) (\<lambda>isValid.
       if \<not> isValid
       then throw_io (NotionAPIError (''Database '' @ databaseId @ '' not found or not accessible'')
                        (Some 404) None)
       else bind_io (notion_makeRequest ''POST'' ''pages'') (\<lambda>response. return_io (nj_id response)))"

definition updateDatabasePage :: "string \<Rightarrow> world \<Rightarrow> (error + unit) \<times> world" where
  "updateDatabasePage pageId =
     bind_io (notion_makeRequest ''PATCH'' (''pages/'' @ pageId)) (\<lambda>r. return_io ())"

definition findPageByPRPId :: "string \<Rightarrow> uuid \<Rightarrow> world \<Rightarrow> (error + string option) \<times> world" where
  "findPageByPRPId databaseId prpId =
     bind_io (notion_makeRequest ''POST'' (''databases/'' @ databaseId @ ''/query'')) (\<lambda>response.
       case nj_results response of
         Some (first # rest) \<Rightarrow> return_io (Some first)
       | _ \<Rightarrow> return_io None)"

section \<open>Persistence\<close>

text \<open>
  Modelled from the spec: \<open>withDatabase\<close> (src/database/utils.ts is not among the
  sources). It acquires a connection, runs the work and releases the connection on every
  exit path; a connectivity error is thrown before the work starts, and the statements of
  one call form one atomic unit, so work that throws leaves the tables as they were.
\<close>

definition withDatabase ::
  "(world \<Rightarrow> (error + 'a) \<times> world) \<Rightarrow> world \<Rightarrow> (error + 'a) \<times> world" where
  "withDatabase work w =
     (let w0 = log_effect DbConnect w in
      case db_outages w0 of
        [] \<Rightarrow> (case work w0 of (Inl e, w2) \<Rightarrow> (Inl e, w0) | (Inr x, w2) \<Rightarrow> (Inr x, w2))
      | down # rest \<Rightarrow>
          if down then (Inl (Error ''Database connection failed''), w0\<lparr>db_outages := rest\<rparr>)
          else (case work (w0\<lparr>db_outages := rest\<rparr>) of
                  (Inl e, w2) \<Rightarrow> (Inl e, w0\<lparr>db_outages := rest\<rparr>)
                | (Inr x, w2) \<Rightarrow> (Inr x, w2)))"

text \<open>The check constraint on \<open>prp_tasks.type\<close> of migration 001 and of migration 002.\<close>

definition migration_001 :: "world \<Rightarrow> world" where
  "migration_001 w =
     w\<lparr>prp_tasks_type_check := [''create'', ''modify'', ''test'', ''deploy'', ''other'']\<rparr>"

definition migration_002 :: "world \<Rightarrow> world" where
  "migration_002 w =
     w\<lparr>prp_tasks_type_check := [''create'', ''modify'', ''test'', ''deploy'', ''analyze'',
                                 ''design'', ''document'', ''research'', ''review'', ''other'']\<rparr>"

text \<open>\<open>SELECT * FROM parsed_prps WHERE id = ...\<close>, first row.\<close>

definition select_prp :: "uuid \<Rightarrow> world \<Rightarrow> prp_row option" where
  "select_prp i w = find (\<lambda>r. prp_id r = i) (parsed_prps w)"

definition fetch_prp :: "uuid \<Rightarrow> world \<Rightarrow> (error + prp_row) \<times> world" where
  "fetch_prp i w =
     (case select_prp i w of
        None \<Rightarrow> throw_io (Error (''PRP not found: '' @ digits_of i)) w
      | Some row \<Rightarrow> return_io row w)"

text \<open>
  \<open>INSERT INTO prp_tasks\<close> of a batch of values: one statement, so one violated check
  rejects the whole batch. The store assigns the ids and the timestamps and leaves the
  completion fields null. For an empty batch the query helper has no first row to take
  the columns from and throws; parse does not call it then, extractTasks does.
\<close>

record task_value =
  tv_prp_id :: uuid
  tv_order_num :: nat
  tv_title :: string
  tv_description :: string
  tv_type :: string
  tv_file_path :: "string option"
  tv_pseudocode :: "string option"
  tv_status :: task_status

definition new_task_row :: "nat \<Rightarrow> nat \<Rightarrow> nat \<times> task_value \<Rightarrow> task_row" where
  "new_task_row first_id t iv =
     (case iv of
        (i, v) \<Rightarrow>
          \<lparr> task_id = first_id + i, task_prp_id = tv_prp_id v, task_order_num = tv_order_num v,
            task_title = tv_title v, task_description = tv_description v, task_type = tv_type v,
            task_file_path = tv_file_path v, task_pseudocode = tv_pseudocode v,
            task_status = tv_status v, task_created_at = t, task_updated_at = t,
            task_completed_at = None, task_completed_by = None \<rparr>)"

definition insert_prp_tasks :: "task_value list \<Rightarrow> world \<Rightarrow> (error + task_row list) \<times> world" where
  "insert_prp_tasks taskValues w =
     (if taskValues = []
      then (Inl (TypeError ''Cannot convert undefined or null to object''), w)
      else if list_all (\<lambda>v. tv_type v \<in> set (prp_tasks_type_check w)) taskValues
      then (let rows = map (new_task_row (next_uuid w) (clock w)) (enumerate 0 taskValues)
            in (Inr rows, w\<lparr>prp_tasks := prp_tasks w @ rows,
                             next_uuid := next_uuid w + length taskValues\<rparr>))
      else (Inl (Error ''new row violates check constraint prp_tasks_type_check''), w))"

text \<open>The task values of \<open>parseYoutubePRP\<close> and of \<open>extractTasks\<close>.\<close>

definition parse_task_value :: "uuid \<Rightarrow> nat \<times> prp_task \<Rightarrow> task_value" where
  "parse_task_value pid it =
     (case it of
        (index, task) \<Rightarrow>
          \<lparr> tv_prp_id = pid, tv_order_num = index + 1, tv_title = pt_title task,
            tv_description = pt_description task, tv_type = pt_type task,
            tv_file_path = or_null (pt_file_path task),
            tv_pseudocode = or_null (pt_pseudocode task), tv_status = pending \<rparr>)"

definition extract_task_value :: "uuid \<Rightarrow> nat \<Rightarrow> nat \<times> prp_task \<Rightarrow> task_value" where
  "extract_task_value pid existing it =
     (case it of
        (index, task) \<Rightarrow>
          \<lparr> tv_prp_id = pid, tv_order_num = existing + index + 1, tv_title = pt_title task,
            tv_description = pt_description task, tv_type = pt_type task,
            tv_file_path = or_null (pt_file_path task),
            tv_pseudocode = or_null (pt_pseudocode task), tv_status = pending \<rparr>)"

text \<open>The statements on \<open>parsed_prps\<close>; the trigger refreshes \<open>updated_at\<close> on every update.\<close>

definition insert_prp ::
  "string \<Rightarrow> string \<Rightarrow> video_metadata \<Rightarrow> string \<Rightarrow> prp_content \<Rightarrow> string \<Rightarrow> world
     \<Rightarrow> (error + prp_row) \<times> world" where
  "insert_prp youtube_url videoId metadata transcript prpContent login w =
     (let row = \<lparr> prp_id = next_uuid w, prp_youtube_url = youtube_url, prp_video_id = videoId,
                  prp_video_title = vm_title metadata, prp_channel_title = vm_channelTitle metadata,
                  prp_transcript = transcript, prp_parsed_content = prpContent,
                  prp_created_by = login, prp_updated_at = clock w,
                  prp_notion_page_id = None, prp_notion_sync_status = not_synced,
                  prp_notion_sync_error = None, prp_notion_synced_at = None \<rparr>
      in (Inr row, w\<lparr>parsed_prps := parsed_prps w @ [row], next_uuid := next_uuid w + 1\<rparr>))"

definition update_prp :: "uuid \<Rightarrow> (prp_row \<Rightarrow> prp_row) \<Rightarrow> world \<Rightarrow> (error + unit) \<times> world" where
  "update_prp i f w =
     (Inr (), w\<lparr>parsed_prps :=
                  map (\<lambda>r. if prp_id r = i then (f r)\<lparr>prp_updated_at := clock w\<rparr> else r)
                      (parsed_prps w)\<rparr>)"

definition mark_synced :: "string \<Rightarrow> nat \<Rightarrow> prp_row \<Rightarrow> prp_row" where
  "mark_synced notionPageId t r =
     r\<lparr>prp_notion_page_id := Some notionPageId, prp_notion_sync_status := synced,
       prp_notion_synced_at := Some t, prp_notion_sync_error := None\<rparr>"

definition mark_synced_after_parse :: "string \<Rightarrow> nat \<Rightarrow> prp_row \<Rightarrow> prp_row" where
  "mark_synced_after_parse notionPageId t r =
     r\<lparr>prp_notion_page_id := Some notionPageId, prp_notion_sync_status := synced,
       prp_notion_synced_at := Some t\<rparr>"

definition mark_failed :: "string \<Rightarrow> prp_row \<Rightarrow> prp_row" where
  "mark_failed syncError r =
     r\<lparr>prp_notion_sync_status := failed, prp_notion_sync_error := Some syncError\<rparr>"

text \<open>
  The \<open>UPDATE prp_tasks ... RETURNING *\<close> of \<open>updateTaskStatus\<close>: the status and
  \<open>updated_at\<close> always, the completion fields only for the status \<open>completed\<close>.
\<close>

definition set_task_status :: "task_status \<Rightarrow> string \<Rightarrow> nat \<Rightarrow> task_row \<Rightarrow> task_row" where
  "set_task_status status login t r =
     (if status = completed
      then r\<lparr>task_status := status, task_updated_at := t,
             task_completed_at := Some t, task_completed_by := Some login\<rparr>
      else r\<lparr>task_status := status, task_updated_at := t\<rparr>)"

definition update_task :: "uuid \<Rightarrow> task_status \<Rightarrow> string \<Rightarrow> world \<Rightarrow> (error + task_row) \<times> world" where
  "update_task tid status login w =
     (let w1 = w\<lparr>prp_tasks := map (\<lambda>r. if task_id r = tid
                                         then set_task_status status login (clock w) r else r)
                                  (prp_tasks w)\<rparr>
      in case find (\<lambda>r. task_id r = tid) (prp_tasks w1) of
           None \<Rightarrow> throw_io (Error (''Task not found: '' @ digits_of tid)) w1
         | Some task \<Rightarrow> return_io task w1)"

section \<open>Tool handlers\<close>

text \<open>
  A handler answers with one of the two envelopes (\<open>createSuccessResponse\<close>,
  \<open>createErrorResponse\<close>). The details of a failure carry the caught error; the
  sanitising \<open>formatDatabaseError\<close> is applied to it when the envelope is rendered.
\<close>

record parse_response =
  out_prp_id :: uuid
  out_prp_name :: string
  out_video_title :: string
  out_channel_title :: string
  out_task_count :: nat
  out_notion_page_id :: "string option"
  out_sync_status :: sync_status

record sync_response =
  out_page_id :: string
  out_page_url :: string
  out_status :: sync_status
  out_error :: "string option"

datatype payload =
    ParseData parse_response
  | SyncData sync_response
  | ExtractData uuid string nat nat "task_row list"
  | StatusData uuid string task_status uuid string string

datatype details =
    PermissionDetails string string string
  | AlreadySyncedDetails "string option" string
  | InvalidUrlDetails string string
  | FailureDetails error

datatype envelope = SuccessResponse string payload | ErrorResponse string details

definition ALLOWED_USERNAMES :: "string list" where
  "ALLOWED_USERNAMES = [''coleam00'', ''vedantparmar12'']"

definition dq :: string where
  "dq = [CHR 0x22]"

text \<open>The outer \<open>try\<close>/\<open>catch\<close> of a handler turns anything thrown into an error envelope.\<close>

definition tool_boundary ::
  "string \<Rightarrow> (world \<Rightarrow> (error + envelope) \<times> world) \<Rightarrow> world \<Rightarrow> envelope \<times> world" where
  "tool_boundary failure body w =
     (case body w of
        (Inr r, w1) \<Rightarrow> (r, w1)
      | (Inl error, w1) \<Rightarrow> (ErrorResponse failure (FailureDetails error), w1))"

subsection \<open>syncToNotion\<close>

text \<open>
  The inner \<open>try\<close> block: update the page found, or create a page, or return the
  already-synced notice (\<open>Inl\<close>: the handler returns at once, no state is written).
\<close>

definition sync_page ::
  "uuid \<Rightarrow> string \<Rightarrow> bool \<Rightarrow> prp_row \<Rightarrow> string option \<Rightarrow> world
     \<Rightarrow> (error + (envelope + string)) \<times> world" where
  "sync_page pid database_id update_existing prp existingPageId =
     bind_io
       (if truthy existingPageId \<and> update_existing then
          bind_io (updateDatabasePage (or_default existingPageId [])) (\<lambda>u.
            return_io (Inr (or_default existingPageId [])))
        else if \<not> truthy (prp_notion_page_id prp) \<or> \<not> truthy existingPageId then
          bind_io (createDatabasePage database_id (prp_parsed_content prp)) (\<lambda>created.
            return_io (Inr created))
        else
          return_io (Inl (ErrorResponse ''PRP already synced to Notion''
                            (AlreadySyncedDetails (prp_notion_page_id prp)
                               ''Use update_existing=true to update the existing page''))))
       (\<lambda>outcome.
          case outcome of
            Inl notice \<Rightarrow> return_io (Inl notice)
          | Inr notionPageId \<Rightarrow>
              bind_io (withDatabase (\<lambda>db. update_prp pid (mark_synced notionPageId (clock db)) db))
                (\<lambda>u. return_io (Inr notionPageId)))"

definition syncToNotion_body ::
  "string \<Rightarrow> uuid \<Rightarrow> string \<Rightarrow> bool \<Rightarrow> world \<Rightarrow> (error + envelope) \<times> world" where
  "syncToNotion_body login pid database_id update_existing =
     (if login \<notin> set ALLOWED_USERNAMES then
        return_io (ErrorResponse ''Insufficient permissions for Notion sync''
                     (PermissionDetails ''privileged'' ''standard'' login))
      else
        bind_io (withDatabase (fetch_prp pid)) (\<lambda>prp.
        bind_io (\<lambda>w. new_client (NOTION_TOKEN w) ''Notion integration token is required'' w) (\<lambda>u.
        bind_io (if update_existing \<or> \<not> truthy (prp_notion_page_id prp)
                 then findPageByPRPId database_id pid else return_io None) (\<lambda>existingPageId.
        bind_io
          (catch_io (sync_page pid database_id update_existing prp existingPageId)
             (\<lambda>error.
                bind_io (withDatabase (update_prp pid (mark_failed (error_message error))))
                  (\<lambda>u. throw_io error)))
          (\<lambda>outcome.
             case outcome of
               Inl notice \<Rightarrow> return_io notice
             | Inr notionPageId \<Rightarrow>
                 return_io
                   (SuccessResponse
                      (''Successfully synced PRP '' @ dq @ pc_name (prp_parsed_content prp) @ dq
                         @ '' to Notion'')
                      (SyncData \<lparr> out_page_id = notionPageId,
                                  out_page_url = ''https://notion.so/''
                                                   @ filter (\<lambda>c. c \<noteq> CHR ''-'') notionPageId,
                                  out_status = synced, out_error = None \<rparr>)))))))"

definition syncToNotion :: "string \<Rightarrow> uuid \<Rightarrow> string \<Rightarrow> bool \<Rightarrow> world \<Rightarrow> envelope \<times> world" where
  "syncToNotion login pid database_id update_existing =
     tool_boundary ''Failed to sync PRP to Notion''
       (syncToNotion_body login pid database_id update_existing)"

subsection \<open>extractTasks\<close>

definition extractTasks_body ::
  "runtime \<Rightarrow> string \<Rightarrow> uuid \<Rightarrow> nat \<Rightarrow> world \<Rightarrow> (error + envelope) \<times> world" where
  "extractTasks_body rt login pid max_tasks =
     (if login \<notin> set ALLOWED_USERNAMES then
        return_io (ErrorResponse ''Insufficient permissions to extract tasks''
                     (PermissionDetails ''privileged'' ''standard'' login))
      else
        bind_io (withDatabase (fetch_prp pid)) (\<lambda>prp.
        bind_io (\<lambda>w. new_client (GEMINI_API_KEY w) ''Gemini API key is required'' w) (\<lambda>u.
        bind_io (gemini_extractTasks rt (prp_parsed_content prp) max_tasks) (\<lambda>newTasks.
        bind_io (withDatabase
                   (insert_prp_tasks
                      (map (extract_task_value pid (length (pc_tasks (prp_parsed_content prp))))
                           (enumerate 0 newTasks)))) (\<lambda>storedTasks.
          return_io
            (SuccessResponse
               (''Extracted '' @ digits_of (length storedTasks) @ '' new tasks for PRP '' @ dq
                  @ pc_name (prp_parsed_content prp) @ dq)
               (ExtractData pid (pc_name (prp_parsed_content prp)) (length storedTasks)
                  (length (pc_tasks (prp_parsed_content prp)) + length storedTasks)
                  storedTasks)))))))"

definition extractTasks ::
  "runtime \<Rightarrow> string \<Rightarrow> uuid \<Rightarrow> nat \<Rightarrow> world \<Rightarrow> envelope \<times> world" where
  "extractTasks rt login pid max_tasks =
     tool_boundary ''Failed to extract additional tasks''
       (extractTasks_body rt login pid max_tasks)"

subsection \<open>updateTaskStatus\<close>

definition status_text :: "task_status \<Rightarrow> string" where
  "status_text s =
     (case s of pending \<Rightarrow> ''pending'' | in_progress \<Rightarrow> ''in_progress''
              | completed \<Rightarrow> ''completed'' | blocked \<Rightarrow> ''blocked'')"

definition updateTaskStatus :: "string \<Rightarrow> uuid \<Rightarrow> task_status \<Rightarrow> world \<Rightarrow> envelope \<times> world" where
  "updateTaskStatus login tid status =
     tool_boundary ''Failed to update task status''
       (bind_io
          (withDatabase
             (bind_io (update_task tid status login) (\<lambda>task db.
                return_io (task, select_prp (task_prp_id task) db) db)))
          (\<lambda>result.
             case result of
               (task, None) \<Rightarrow>
                 throw_io (TypeError (cannot_read ''name''))
             | (task, Some prp) \<Rightarrow>
                 return_io
                   (SuccessResponse (''Updated task status to '' @ dq @ status_text status @ dq)
                      (StatusData tid (task_title task) status (task_prp_id task)
                         (pc_name (prp_parsed_content prp)) login))))"

subsection \<open>parseYoutubePRP\<close>

text \<open>
  The insertion of the PRP row and of its tasks (skipped for an empty task list), and
  the inline sync: whatever is thrown inside its \<open>try\<close>, by the client or by the write
  of the synced state, is answered by the write of the failed state.
\<close>

definition store_parsed_prp ::
  "string \<Rightarrow> string \<Rightarrow> video_metadata \<Rightarrow> string \<Rightarrow> prp_content \<Rightarrow> string \<Rightarrow> world
     \<Rightarrow> (error + prp_row) \<times> world" where
  "store_parsed_prp youtube_url videoId metadata transcript prpContent login =
     bind_io (insert_prp youtube_url videoId metadata transcript prpContent login) (\<lambda>prpRow.
       if pc_tasks prpContent \<noteq> []
       then bind_io (insert_prp_tasks (map (parse_task_value (prp_id prpRow))
                                          (enumerate 0 (pc_tasks prpContent))))
              (\<lambda>rows. return_io prpRow)
       else return_io prpRow)"

definition record_sync_failure ::
  "uuid \<Rightarrow> string option \<Rightarrow> error \<Rightarrow> world \<Rightarrow> (error + string option \<times> sync_status) \<times> world" where
  "record_sync_failure pid notionPageId error =
     bind_io (withDatabase (update_prp pid (mark_failed (error_message error))))
       (\<lambda>u. return_io (notionPageId, failed))"

definition sync_try ::
  "uuid \<Rightarrow> string \<Rightarrow> prp_content \<Rightarrow> world \<Rightarrow> (error \<times> string option + string) \<times> world" where
  "sync_try pid notion_database_id prpContent w =
     (case bind_io (\<lambda>w. new_client (NOTION_TOKEN w) ''Notion integration token is required'' w)
             (\<lambda>u. createDatabasePage notion_database_id prpContent) w of
        (Inl error, w1) \<Rightarrow> (Inl (error, None), w1)
      | (Inr notionPageId, w1) \<Rightarrow>
          (case withDatabase
                  (\<lambda>db. update_prp pid (mark_synced_after_parse notionPageId (clock db)) db) w1 of
             (Inl error, w2) \<Rightarrow> (Inl (error, Some notionPageId), w2)
           | (Inr u, w2) \<Rightarrow> (Inr notionPageId, w2)))"

definition auto_sync_block ::
  "uuid \<Rightarrow> string \<Rightarrow> prp_content \<Rightarrow> world \<Rightarrow> (error + string option \<times> sync_status) \<times> world" where
  "auto_sync_block pid notion_database_id prpContent w =
     (case sync_try pid notion_database_id prpContent w of
        (Inl (error, notionPageId), w1) \<Rightarrow> record_sync_failure pid notionPageId error w1
      | (Inr notionPageId, w1) \<Rightarrow> (Inr (Some notionPageId, synced), w1))"

text \<open>The handler up to the insertion, and from the insertion on.\<close>

definition parse_and_store ::
  "runtime \<Rightarrow> string \<Rightarrow> string \<Rightarrow> string \<Rightarrow> world
     \<Rightarrow> (error + video_metadata \<times> prp_content \<times> prp_row) \<times> world" where
  "parse_and_store rt login youtube_url videoId =
     bind_io (\<lambda>w. new_client (YOUTUBE_API_KEY w) ''YouTube API key is required'' w) (\<lambda>u.
     bind_io (\<lambda>w. new_client (GEMINI_API_KEY w) ''Gemini API key is required'' w) (\<lambda>u.
     bind_io (getVideoMetadata rt videoId) (\<lambda>metadata.
     bind_io (getVideoTranscript rt videoId) (\<lambda>transcript.
     bind_io (parsePRPContent rt transcript metadata) (\<lambda>prpContent.
     bind_io (withDatabase
                (store_parsed_prp youtube_url videoId metadata transcript prpContent login))
       (\<lambda>prp. return_io (metadata, prpContent, prp)))))))"

definition sync_and_respond ::
  "string option \<Rightarrow> bool \<Rightarrow> video_metadata \<times> prp_content \<times> prp_row \<Rightarrow> world
     \<Rightarrow> (error + envelope) \<times> world" where
  "sync_and_respond notion_database_id auto_sync stored =
     (case stored of
        (metadata, prpContent, prp) \<Rightarrow>
          bind_io (if auto_sync \<and> truthy notion_database_id
                   then auto_sync_block (prp_id prp) (or_default notion_database_id []) prpContent
                   else return_io (None, not_synced)) (\<lambda>sync.
            return_io
              (SuccessResponse
                 (''Parsed PRP from YouTube video: '' @ dq @ vm_title metadata @ dq)
                 (ParseData \<lparr> out_prp_id = prp_id prp, out_prp_name = pc_name prpContent,
                              out_video_title = vm_title metadata,
                              out_channel_title = vm_channelTitle metadata,
                              out_task_count = length (pc_tasks prpContent),
                              out_notion_page_id = fst sync,
                              out_sync_status = snd sync \<rparr>))))"

definition parseYoutubePRP_body ::
  "runtime \<Rightarrow> string \<Rightarrow> string \<Rightarrow> string option \<Rightarrow> bool \<Rightarrow> world
     \<Rightarrow> (error + envelope) \<times> world" where
  "parseYoutubePRP_body rt login youtube_url notion_database_id auto_sync =
     (case extractVideoId youtube_url of
        Inl error \<Rightarrow>
          return_io (ErrorResponse ''Invalid YouTube URL format''
                       (InvalidUrlDetails youtube_url (error_message error)))
      | Inr videoId \<Rightarrow>
          bind_io (parse_and_store rt login youtube_url videoId)
            (sync_and_respond notion_database_id auto_sync))"

definition parseYoutubePRP ::
  "runtime \<Rightarrow> string \<Rightarrow> string \<Rightarrow> string option \<Rightarrow> bool \<Rightarrow> world
     \<Rightarrow> envelope \<times> world" where
  "parseYoutubePRP rt login youtube_url notion_database_id auto_sync =
     tool_boundary ''Failed to parse YouTube PRP''
       (parseYoutubePRP_body rt login youtube_url notion_database_id auto_sync)"

subsection \<open>Registration\<close>

text \<open>
  The tools registered for a user, by name. \<open>updateTaskStatus\<close> is registered only for a
  user of the allow-list. A call of a tool that is not registered has no handler in this
  program: the server library answers it, and the model gives \<open>None\<close> and the world
  unchanged.
\<close>

definition registerYouTubeTools :: "string \<Rightarrow> string list" where
  "registerYouTubeTools login = [''parseYoutubePRP'']"

definition registerNotionTools :: "string \<Rightarrow> string list" where
  "registerNotionTools login = [''syncToNotion'', ''checkNotionSyncStatus'']"

definition registerPRPTools :: "string \<Rightarrow> string list" where
  "registerPRPTools login =
     [''listParsedPRPs'', ''getPRPDetails'', ''extractTasks'']
       @ (if login \<in> set ALLOWED_USERNAMES then [''updateTaskStatus''] else [])"

definition registerAllTools :: "string \<Rightarrow> string list" where
  "registerAllTools login =
     registerYouTubeTools login @ registerNotionTools login @ registerPRPTools login"

datatype tool_call =
    CallParseYoutubePRP string "string option" bool
  | CallExtractTasks uuid nat
  | CallUpdateTaskStatus uuid task_status
  | CallSyncToNotion uuid string bool

fun tool_name :: "tool_call \<Rightarrow> string" where
  "tool_name (CallParseYoutubePRP u d a) = ''parseYoutubePRP''"
| "tool_name (CallExtractTasks p m) = ''extractTasks''"
| "tool_name (CallUpdateTaskStatus t s) = ''updateTaskStatus''"
| "tool_name (CallSyncToNotion p d u) = ''syncToNotion''"

fun run_handler ::
  "runtime \<Rightarrow> string \<Rightarrow> tool_call \<Rightarrow> world \<Rightarrow> envelope \<times> world" where
  "run_handler rt login (CallParseYoutubePRP u d a) w = parseYoutubePRP rt login u d a w"
| "run_handler rt login (CallExtractTasks p m) w = extractTasks rt login p m w"
| "run_handler rt login (CallUpdateTaskStatus t s) w = updateTaskStatus login t s w"
| "run_handler rt login (CallSyncToNotion p d u) w = syncToNotion login p d u w"

definition call_tool ::
  "runtime \<Rightarrow> string \<Rightarrow> tool_call \<Rightarrow> world \<Rightarrow> envelope option \<times> world" where
  "call_tool rt login call w =
     (if tool_name call \<in> set (registerAllTools login)
      then (case run_handler rt login call w of (r, w1) \<Rightarrow> (Some r, w1))
      else (None, w))"

section \<open>Notions used in the statements\<close>

text \<open>An upstream that answers the next \<open>maxRetries\<close> requests with status 429.\<close>

definition rate_limited :: "'j fetch_outcome \<Rightarrow> bool" where
  "rate_limited out = (case out of FetchRejects e \<Rightarrow> False | FetchResolves r \<Rightarrow> resp_status r = 429)"

definition keeps_rate_limiting :: "'j fetch_outcome list \<Rightarrow> bool" where
  "keeps_rate_limiting net = (maxRetries \<le> length net \<and> list_all rate_limited (take maxRetries net))"

definition retry_after_of :: "'j fetch_outcome \<Rightarrow> string option" where
  "retry_after_of out = (case out of FetchRejects e \<Rightarrow> None | FetchResolves r \<Rightarrow> resp_retry_after r)"

text \<open>
  An upstream that answers the next \<open>maxRetries\<close> requests with a 2xx response whose body
  \<open>response.json()\<close> rejects, and the message of that rejection.
\<close>

definition unparsable_body :: "'j fetch_outcome \<Rightarrow> bool" where
  "unparsable_body out =
     (case out of FetchRejects e \<Rightarrow> False | FetchResolves r \<Rightarrow> resp_ok r \<and> isl (resp_json r))"

definition keeps_answering_unparsable :: "'j fetch_outcome list \<Rightarrow> bool" where
  "keeps_answering_unparsable net =
     (maxRetries \<le> length net \<and> list_all unparsable_body (take maxRetries net))"

definition body_complaint :: "'j fetch_outcome \<Rightarrow> string" where
  "body_complaint out =
     (case out of
        FetchRejects e \<Rightarrow> []
      | FetchResolves r \<Rightarrow> (case resp_json r of Inl complaint \<Rightarrow> complaint | Inr j \<Rightarrow> []))"

text \<open>The requests a client has sent, counted in the log.\<close>

definition is_request :: "client \<Rightarrow> effect \<Rightarrow> bool" where
  "is_request c e = (case e of HttpRequest c' m u \<Rightarrow> c' = c | Backoff c' d \<Rightarrow> False | DbConnect \<Rightarrow> False)"

definition request_count :: "client \<Rightarrow> world \<Rightarrow> nat" where
  "request_count c w = length (filter (is_request c) (effects w))"

text \<open>The tasks of one PRP, in insertion order, and the ids handed out so far.\<close>

definition tasks_of :: "uuid \<Rightarrow> world \<Rightarrow> task_row list" where
  "tasks_of pid w = filter (\<lambda>t. task_prp_id t = pid) (prp_tasks w)"

definition ids_fresh :: "world \<Rightarrow> bool" where
  "ids_fresh w =
     (list_all (\<lambda>r. prp_id r < next_uuid w) (parsed_prps w) \<and>
      list_all (\<lambda>t. task_prp_id t < next_uuid w) (prp_tasks w))"

text \<open>
  The coupling of status and completion fields that the code maintains: a completed
  task carries both completion fields.
\<close>

definition completion_recorded :: "task_row \<Rightarrow> bool" where
  "completion_recorded t =
     (if task_status t = completed
      then task_completed_at t \<noteq> None \<and> task_completed_by t \<noteq> None else True)"

subsection \<open>Example worlds\<close>

definition ok_response :: "'j \<Rightarrow> 'j response" where
  "ok_response j = \<lparr> resp_status = 200, resp_retry_after = None, resp_text = [], resp_json = Inr j \<rparr>"

definition too_many_requests :: "'j response" where
  "too_many_requests = \<lparr> resp_status = 429, resp_retry_after = None, resp_text = [],
       resp_json = Inl ''Unexpected end of JSON input'' \<rparr>"

definition blank_world :: world where
  "blank_world =
     \<lparr> parsed_prps = [], prp_tasks = [], prp_tasks_type_check = [], db_outages = [],
       next_uuid = 1, clock = 100, YOUTUBE_API_KEY = ''yt-key'', GEMINI_API_KEY = ''ai-key'',
       NOTION_TOKEN = ''secret'', youtube_net = [], gemini_net = [], notion_net = [],
       effects = [] \<rparr>"

definition fresh_world :: world where
  "fresh_world = migration_002 (migration_001 blank_world)"

definition analyze_value :: task_value where
  "analyze_value =
     \<lparr> tv_prp_id = 1, tv_order_num = 1, tv_title = ''Measure'', tv_description = ''Profile it'',
       tv_type = ''analyze'', tv_file_path = None, tv_pseudocode = None, tv_status = pending \<rparr>"

definition example_video :: video_resource where
  "example_video =
     \<lparr> vr_id = ''dQw4w9WgXcQ'', vr_title = ''Build an MCP server'',
       vr_description = ''A walkthrough'', vr_channelTitle = ''Tutorials'',
       vr_publishedAt = ''2025-01-01T00:00:00Z'', vr_duration = ''PT1H2M3S'' \<rparr>"

definition example_raw_task :: "string \<Rightarrow> raw_task" where
  "example_raw_task ty =
     \<lparr> rt_title = Some ''Write the tool'', rt_description = Some ''Implement and register it'',
       rt_type = Some ty, rt_file_path = None, rt_pseudocode = None \<rparr>"

definition example_raw_prp :: raw_prp where
  "example_raw_prp =
     \<lparr> rp_name = Some ''MCP server'', rp_description = Some ''A server with tools'',
       rp_goal = Some ''Ship it'', rp_why = Some [''Reuse''], rp_what = Some ''Tools over MCP'',
       rp_success_criteria = Some [''Tools answer''], rp_has_context = True,
       rp_documentation = Some [], rp_codebase_tree = None, rp_gotchas = Some [],
       rp_tasks = Some [example_raw_task ''create'', example_raw_task ''analyze''] \<rparr>"

text \<open>
  An engine for the examples: it reads the two texts below as a PRP object and as an
  array of one task, and rejects every other text with one message. No number of the
  examples reaches \<open>2^53\<close>.
\<close>

definition example_JSON_parse :: "js_text \<Rightarrow> string + ai_json" where
  "example_JSON_parse s =
     (if s = units ''{prp}'' then Inr (AiObject example_raw_prp)
      else if s = units ''[task]'' then Inr (AiArray [example_raw_task ''review''])
      else Inl ''Unexpected token in JSON at position 0'')"

definition example_runtime :: runtime where
  "example_runtime =
     \<lparr> JSON_parse = example_JSON_parse, zod_message = (\<lambda>j. ''Required''),
       large_number_text = (\<lambda>n. ''9007199254740992'') \<rparr>"

text \<open>
  A world in which the video service serves the example video (metadata, an empty
  caption list, metadata again) and the model answers with a PRP and then twice with
  one more task.
\<close>

definition studio_world :: world where
  "studio_world =
     fresh_world
       \<lparr> youtube_net := [FetchResolves (ok_response (Some [VideoItem example_video])),
                         FetchResolves (ok_response (Some [])),
                         FetchResolves (ok_response (Some [VideoItem example_video]))],
         gemini_net := [FetchResolves (ok_response (Some [Some (units ''{prp}'')])),
                        FetchResolves (ok_response (Some [Some (units ''[task]'')])),
                        FetchResolves (ok_response (Some [Some (units ''[task]'')]))] \<rparr>"

definition example_url :: string where
  "example_url = ''https://www.youtube.com/watch?v=dQw4w9WgXcQ''"

text \<open>The document store does not know the target database.\<close>

definition database_missing :: "notion_json response" where
  "database_missing =
     \<lparr> resp_status = 404, resp_retry_after = None, resp_text = [],
       resp_json = Inr \<lparr> nj_id = [], nj_results = None,
                          nj_message = Some ''Could not find database'',
                          nj_code = Some ''object_not_found'' \<rparr> \<rparr>"

definition notion_object :: "string \<Rightarrow> notion_json response" where
  "notion_object i =
     ok_response \<lparr> nj_id = i, nj_results = None, nj_message = None, nj_code = None \<rparr>"

text \<open>A PRP that has been synced to the page \<open>page-1\<close>, and a document store that works.\<close>

definition example_content :: prp_content where
  "example_content =
     \<lparr> pc_name = ''MCP server'', pc_description = ''A server with tools'', pc_goal = ''Ship it'',
       pc_why = [''Reuse''], pc_what = ''Tools over MCP'', pc_success_criteria = [''Tools answer''],
       pc_documentation = [], pc_codebase_tree = None, pc_gotchas = [], pc_tasks = [] \<rparr>"

definition synced_row :: prp_row where
  "synced_row =
     \<lparr> prp_id = 1, prp_youtube_url = example_url, prp_video_id = ''dQw4w9WgXcQ'',
       prp_video_title = ''Build an MCP server'', prp_channel_title = ''Tutorials'',
       prp_transcript = [], prp_parsed_content = example_content, prp_created_by = ''coleam00'',
       prp_updated_at = 50, prp_notion_page_id = Some ''page-1'',
       prp_notion_sync_status = synced, prp_notion_sync_error = None,
       prp_notion_synced_at = Some 50 \<rparr>"

definition synced_world :: world where
  "synced_world =
     fresh_world
       \<lparr> parsed_prps := [synced_row], next_uuid := 2,
         notion_net := [FetchResolves (notion_object ''db-1''),
                        FetchResolves (notion_object ''page-2'')] \<rparr>"

text \<open>A PRP with one pending task.\<close>

definition pending_task :: task_row where
  "pending_task =
     \<lparr> task_id = 2, task_prp_id = 1, task_order_num = 1, task_title = ''Write the tool'',
       task_description = ''Implement and register it'', task_type = ''create'',
       task_file_path = None, task_pseudocode = None, task_status = pending,
       task_created_at = 50, task_updated_at = 50, task_completed_at = None,
       task_completed_by = None \<rparr>"

definition tracking_world :: world where
  "tracking_world = fresh_world \<lparr> parsed_prps := [synced_row], prp_tasks := [pending_task], next_uuid := 3 \<rparr>"

text \<open>
  The next reply of the generative API is a 2xx response with a candidate whose text
  \<open>JSON.parse\<close> rejects (after the code fence is stripped) with the message \<open>complaint\<close>.
\<close>

fun first_candidate_text :: "string + gemini_json \<Rightarrow> js_text option" where
  "first_candidate_text (Inr (Some (Some t # others))) = Some t"
| "first_candidate_text other = None"

definition answers_malformed_text ::
  "runtime \<Rightarrow> string \<Rightarrow> gemini_json fetch_outcome list \<Rightarrow> bool" where
  "answers_malformed_text rt complaint net =
     (case net of
        [] \<Rightarrow> False
      | out # rest \<Rightarrow>
          (case out of
             FetchRejects e \<Rightarrow> False
           | FetchResolves r \<Rightarrow>
               resp_ok r \<and>
               (case first_candidate_text (resp_json r) of
                  None \<Rightarrow> False
                | Some t \<Rightarrow> t \<noteq> [] \<and> JSON_parse rt (clean_response t) = Inl complaint)))"

definition throttled_world :: world where
  "throttled_world =
     fresh_world
       \<lparr> youtube_net := replicate 5 (FetchResolves too_many_requests),
         gemini_net := replicate 5 (FetchResolves too_many_requests),
         notion_net := replicate 5 (FetchResolves too_many_requests) \<rparr>"

definition garbled_world :: world where
  "garbled_world =
     fresh_world \<lparr> gemini_net := [FetchResolves (ok_response (Some [Some (units ''Sure, here it is'')]))] \<rparr>"

text \<open>The generative API answers three times with status 200 and a page that is not JSON.\<close>

definition gateway_page :: "gemini_json response" where
  "gateway_page =
     \<lparr> resp_status = 200, resp_retry_after = None, resp_text = ''<html>Bad gateway</html>'',
       resp_json = Inl ''Unexpected token < in JSON at position 0'' \<rparr>"

definition unparsable_world :: world where
  "unparsable_world = fresh_world \<lparr> gemini_net := replicate 3 (FetchResolves gateway_page) \<rparr>"

text \<open>
  The caption request ended with a list in which a track was chosen: the case in which
  the \<open>try\<close> block goes on to fetch the metadata.
\<close>

definition captions_found :: "error + yt_json \<Rightarrow> bool" where
  "captions_found listing =
     (case listing of
        Inl e \<Rightarrow> False
      | Inr None \<Rightarrow> False
      | Inr (Some []) \<Rightarrow> False
      | Inr (Some (i # items)) \<Rightarrow> \<not> isl (find_caption (i # items)))"

text \<open>The description of the video that the video service serves on a metadata request.\<close>

definition served_description :: "error + yt_json \<Rightarrow> string option" where
  "served_description response =
     (case response of
        Inr (Some (VideoItem item # rest)) \<Rightarrow> Some (vr_description item)
      | _ \<Rightarrow> None)"


text \<open>The video service lists no captions and no longer knows the video.\<close>

definition vanished_video_world :: world where
  "vanished_video_world =
     fresh_world \<lparr> youtube_net := [FetchResolves (ok_response (Some [])),
                                   FetchResolves (ok_response (Some []))] \<rparr>"

text \<open>The video service lists no captions and serves the video.\<close>

definition captionless_world :: world where
  "captionless_world =
     fresh_world \<lparr> youtube_net := [FetchResolves (ok_response (Some [])),
                                   FetchResolves (ok_response (Some [VideoItem example_video]))] \<rparr>"

text \<open>
  The video service lists an English caption track, answers the metadata request of the
  \<open>try\<close> block with status 500 and serves the video on the next request.
\<close>

definition backend_error :: "yt_json response" where
  "backend_error =
     \<lparr> resp_status = 500, resp_retry_after = None, resp_text = ''backend error'',
       resp_json = Inl ''Unexpected token b in JSON at position 0'' \<rparr>"

definition recovering_world :: world where
  "recovering_world =
     fresh_world \<lparr> youtube_net := [FetchResolves (ok_response (Some [CaptionItem ''en''])),
                                   FetchResolves backend_error,
                                   FetchResolves (ok_response (Some [VideoItem example_video]))] \<rparr>"

definition example_metadata :: video_metadata where
  "example_metadata =
     \<lparr> vm_id = ''dQw4w9WgXcQ'', vm_title = ''Build an MCP server'',
       vm_description = ''A walkthrough'', vm_channelTitle = ''Tutorials'',
       vm_publishedAt = ''2025-01-01T00:00:00Z'', vm_duration = ''1h 2m 3s'' \<rparr>"

text \<open>The rows of the task table after an update of the status of task \<open>tid\<close>.\<close>

definition tasks_after_update :: "uuid \<Rightarrow> task_status \<Rightarrow> string \<Rightarrow> world \<Rightarrow> task_row list" where
  "tasks_after_update tid status login w =
     map (\<lambda>r. if task_id r = tid then set_task_status status login (clock w) r else r) (prp_tasks w)"

text \<open>Two worlds with the same tables, id counter, constraint and clock.\<close>

definition same_tables :: "world \<Rightarrow> world \<Rightarrow> bool" where
  "same_tables w w' =
     (parsed_prps w' = parsed_prps w \<and> prp_tasks w' = prp_tasks w \<and> next_uuid w' = next_uuid w
      \<and> prp_tasks_type_check w' = prp_tasks_type_check w \<and> clock w' = clock w)"

text \<open>
  The example pipeline with auto-sync to a database the document store does not know;
  in the second world the store is also unreachable for its second connection.
\<close>

definition sync_target_missing_world :: world where
  "sync_target_missing_world = studio_world \<lparr> notion_net := [FetchResolves database_missing] \<rparr>"

definition store_outage_world :: world where
  "store_outage_world =
     studio_world \<lparr> notion_net := [FetchResolves database_missing], db_outages := [False, True] \<rparr>"

text \<open>Two worlds with the same tasks, id counter, and ids and contents of the PRPs.\<close>

definition same_content :: "world \<Rightarrow> world \<Rightarrow> bool" where
  "same_content w w' =
     (prp_tasks w' = prp_tasks w \<and> next_uuid w' = next_uuid w
      \<and> map (\<lambda>r. (prp_id r, prp_parsed_content r)) (parsed_prps w')
          = map (\<lambda>r. (prp_id r, prp_parsed_content r)) (parsed_prps w))"

section \<open>Evaluation\<close>

text \<open>The repetition count of a character group as a test, for evaluation.\<close>

lemma id_chars_unfold [code]:
  "id_chars n s =
     (if n = 0 then Some []
      else (case s of
              [] \<Rightarrow> None
            | c # cs \<Rightarrow>
                if is_id_char c
                then (case id_chars (n - 1) cs of Some r \<Rightarrow> Some (c # r) | None \<Rightarrow> None)
                else None))"
  by (cases n; cases s) simp_all

section \<open>Duration rendering\<close>

lemma digit_char_is_digit: "d < 10 \<Longrightarrow> is_digit (digit_char d)"
  unfolding is_digit_def digit_char_def by (simp add: Let_def)

lemma digit_val_digit_char: "d < 10 \<Longrightarrow> digit_val (digit_char d) = d"
  unfolding digit_val_def digit_char_def by simp

lemma digits_of_all_digits: "list_all is_digit (digits_of n)"
proof (induction n rule: digits_of.induct)
  case (1 n)
  show ?case
  proof (cases "n < 10")
    case True
    then show ?thesis by (subst digits_of.simps) (simp add: digit_char_is_digit)
  next
    case False
    with 1 show ?thesis by (subst digits_of.simps) (simp add: digit_char_is_digit)
  qed
qed

lemma digits_of_nonempty: "digits_of n \<noteq> []"
  by (subst digits_of.simps) simp

lemma parseInt_snoc: "parseInt (ds @ [c]) = parseInt ds * 10 + digit_val c"
  by (simp add: parseInt_def)

lemma parseInt_digits_of: "parseInt (digits_of n) = n"
proof (induction n rule: digits_of.induct)
  case (1 n)
  show ?case
  proof (cases "n < 10")
    case True
    then show ?thesis
      by (subst digits_of.simps) (simp add: parseInt_def digit_val_digit_char)
  next
    case False
    with 1 have "parseInt (digits_of (n div 10)) = n div 10" by simp
    with False show ?thesis
      by (subst digits_of.simps) (simp add: parseInt_snoc digit_val_digit_char)
  qed
qed

lemma span_digits_stop:
  "list_all is_digit ds \<Longrightarrow> \<not> is_digit c \<Longrightarrow> span_digits (ds @ c # r) = (ds, c # r)"
  by (induction ds) auto

lemma optional_component_present:
  assumes "\<not> is_digit u"
  shows "optional_component u (digits_of n @ u # r) = (Some (digits_of n), r)"
  using assms
  by (simp add: optional_component_def span_digits_stop digits_of_all_digits digits_of_nonempty)

lemma optional_component_other:
  assumes "\<not> is_digit v" and "v \<noteq> u"
  shows "optional_component u (digits_of n @ v # r) = (None, digits_of n @ v # r)"
  using assms
  by (simp add: optional_component_def span_digits_stop digits_of_all_digits)

lemma optional_component_end: "optional_component u [] = (None, [])"
  by (simp add: optional_component_def)

lemma unit_letters: "\<not> is_digit CHR ''H''" "\<not> is_digit CHR ''M''" "\<not> is_digit CHR ''S''"
  by (simp_all add: is_digit_def)

lemma duration_groups_iso:
  "duration_groups (iso_duration h m s) =
     Some (map_option digits_of h, map_option digits_of m, map_option digits_of s)"
  by (cases h; cases m; cases s)
     (simp_all add: duration_groups_def iso_duration_def duration_component_def
        optional_component_present optional_component_other optional_component_end unit_letters)

lemma regex_search_iso:
  "regex_search duration_groups (iso_duration h m s) =
     Some (map_option digits_of h, map_option digits_of m, map_option digits_of s)"
proof -
  obtain r where "iso_duration h m s = CHR ''P'' # r" by (simp add: iso_duration_def)
  then show ?thesis using duration_groups_iso [of h m s] by simp
qed

lemma group_value_digits: "group_value None = 0" "group_value (Some (digits_of n)) = n"
  by (simp_all add: group_value_def parseInt_digits_of)

lemma parseDuration_iso:
  "parseDuration beyond (iso_duration h m s) = rendered_duration beyond h m s"
  by (cases h; cases m; cases s)
     (simp_all add: parseDuration_def regex_search_iso group_value_digits rendered_duration_def
        shown_component_def Let_def)

lemma no_P_no_match: "CHR ''P'' \<notin> set s \<Longrightarrow> regex_search duration_groups s = None"
  by (induction s) (auto simp: duration_groups_def)

lemma digit_is_not_P: "is_digit c \<Longrightarrow> c \<noteq> CHR ''P'' \<and> c \<noteq> CHR ''T''"
  by (auto simp: is_digit_def)

lemma digits_of_no_P: "CHR ''P'' \<notin> set (digits_of n)"
  using digits_of_all_digits [of n] digit_is_not_P by (auto simp: list_all_iff)

lemma duration_component_no_P: "CHR ''P'' \<notin> set (duration_component c u) \<or> u = CHR ''P''"
  by (cases c) (auto simp: duration_component_def digits_of_no_P)

lemma regex_search_dated: "regex_search duration_groups (dated_duration days h m s) = None"
proof -
  obtain c cs where ds: "digits_of days = c # cs"
    using digits_of_nonempty [of days] by (cases "digits_of days") auto
  have c: "is_digit c" using digits_of_all_digits [of days] ds by simp
  then have "c \<noteq> CHR ''T''" by (simp add: digit_is_not_P)
  then have first: "duration_groups (dated_duration days h m s) = None"
    by (simp add: dated_duration_def duration_groups_def ds)
  have "CHR ''P'' \<notin> set (digits_of days @ ''DT'' @ duration_component h CHR ''H''
                            @ duration_component m CHR ''M'' @ duration_component s CHR ''S'')"
    using duration_component_no_P [of h "CHR ''H''"] duration_component_no_P [of m "CHR ''M''"]
      duration_component_no_P [of s "CHR ''S''"] digits_of_no_P [of days]
    by simp
  from no_P_no_match [OF this] first show ?thesis
    by (simp add: dated_duration_def)
qed

text \<open>
  C9 (amended). parseDuration maps "PT0S" to "0s" and "PT1H2M3S" to "1h 2m 3s". For every
  duration code that consists of the time part only, PT[hH][mM][sS], it gives the
  rendering in which each hour, minute or second component of value 0 (or absent) is
  left out. A code with a day part, P[d]DT[hH][mM][sS], contains no "PT": the expression
  does not match and the code is returned as it is, components of value 0 included.
\<close>

theorem parseDuration_renders_time_part_only:
  "parseDuration beyond ''PT0S'' = ''0s''
   \<and> parseDuration beyond ''PT1H2M3S'' = ''1h 2m 3s''
   \<and> parseDuration beyond (iso_duration h m s) = rendered_duration beyond h m s
   \<and> parseDuration beyond (dated_duration days h m s) = dated_duration days h m s"
proof (intro conjI)
  have "''PT0S'' = iso_duration None None (Some 0)" by code_simp
  then have "parseDuration beyond ''PT0S'' = rendered_duration beyond None None (Some 0)"
    by (simp only: parseDuration_iso)
  then show "parseDuration beyond ''PT0S'' = ''0s''"
    by (simp add: rendered_duration_def shown_component_def)
  have "''PT1H2M3S'' = iso_duration (Some 1) (Some 2) (Some 3)" by code_simp
  then have "parseDuration beyond ''PT1H2M3S''
               = rendered_duration beyond (Some 1) (Some 2) (Some 3)"
    by (simp only: parseDuration_iso)
  moreover have "digits_of 1 = ''1''" "digits_of 2 = ''2''" "digits_of 3 = ''3''" by code_simp+
  ultimately show "parseDuration beyond ''PT1H2M3S'' = ''1h 2m 3s''"
    by (simp add: rendered_duration_def shown_component_def number_text_def)
  show "parseDuration beyond (iso_duration h m s) = rendered_duration beyond h m s"
    by (rule parseDuration_iso)
  show "parseDuration beyond (dated_duration days h m s) = dated_duration days h m s"
    by (simp add: parseDuration_def regex_search_dated)
qed

text \<open>
  The claim as stated fails for a code with a day part: the code of a video of one day
  and five seconds is returned unchanged, with its hour and minute components of value 0.
\<close>

theorem parseDuration_keeps_code_with_day_part:
  "parseDuration (large_number_text example_runtime) ''P1DT0H0M5S'' = ''P1DT0H0M5S''"
  by (simp add: parseDuration_def duration_groups_def)

section \<open>Video-id extraction\<close>

text \<open>
  C10. The patterns of extractVideoId are searched anywhere in the input: a URL on a
  foreign host that contains "youtube.com/watch?v=" followed by eleven id characters
  yields those eleven characters instead of the InvalidURL error, and whatever follows
  the eleventh character is ignored.
\<close>

theorem extractVideoId_matches_inside_foreign_url:
  "extractVideoId (''https://evil.example/youtube.com/watch?v=abcdefghijk'' @ rest) = Inr ''abcdefghijk''"
  by (simp add: extractVideoId_def patterns_def literal_then_id_def is_id_char_def eval_nat_numeral)

section \<open>Privilege gate\<close>

lemma tool_boundary_return: "tool_boundary msg (return_io r) w = (r, w)"
  by (simp add: tool_boundary_def return_io_def)

lemma updateTaskStatus_not_registered:
  "login \<notin> set ALLOWED_USERNAMES \<Longrightarrow> ''updateTaskStatus'' \<notin> set (registerAllTools login)"
  by (simp add: registerAllTools_def registerYouTubeTools_def registerNotionTools_def
        registerPRPTools_def)

text \<open>
  C4 (amended). For a user outside the allow-list, extractTasks and syncToNotion answer
  with the insufficient-permissions error envelope and leave the world unchanged (no
  database access, no external call); updateTaskStatus is not registered for such a
  user, so a call of it reaches no handler of the program and changes nothing.
\<close>

theorem unprivileged_user_is_refused:
  assumes "login \<notin> set ALLOWED_USERNAMES"
  shows "extractTasks rt login pid max_tasks w =
           (ErrorResponse ''Insufficient permissions to extract tasks''
              (PermissionDetails ''privileged'' ''standard'' login), w)
       \<and> syncToNotion login pid database_id update_existing w =
           (ErrorResponse ''Insufficient permissions for Notion sync''
              (PermissionDetails ''privileged'' ''standard'' login), w)
       \<and> call_tool rt login (CallUpdateTaskStatus tid status) w = (None, w)"
proof (intro conjI)
  show "extractTasks rt login pid max_tasks w =
           (ErrorResponse ''Insufficient permissions to extract tasks''
              (PermissionDetails ''privileged'' ''standard'' login), w)"
    using assms by (simp add: extractTasks_def extractTasks_body_def tool_boundary_return)
  show "syncToNotion login pid database_id update_existing w =
           (ErrorResponse ''Insufficient permissions for Notion sync''
              (PermissionDetails ''privileged'' ''standard'' login), w)"
    using assms by (simp add: syncToNotion_def syncToNotion_body_def tool_boundary_return)
  show "call_tool rt login (CallUpdateTaskStatus tid status) w = (None, w)"
    using updateTaskStatus_not_registered [OF assms] by (simp add: call_tool_def)
qed

lemma mallory_not_allowed: "''mallory'' \<notin> set ALLOWED_USERNAMES"
  by (simp add: ALLOWED_USERNAMES_def)

theorem unprivileged_user_is_refused_witness:
  "''mallory'' \<notin> set ALLOWED_USERNAMES
   \<and> extractTasks example_runtime ''mallory'' 1 20 tracking_world =
       (ErrorResponse ''Insufficient permissions to extract tasks''
          (PermissionDetails ''privileged'' ''standard'' ''mallory''), tracking_world)
   \<and> syncToNotion ''mallory'' 1 ''db-1'' False tracking_world =
       (ErrorResponse ''Insufficient permissions for Notion sync''
          (PermissionDetails ''privileged'' ''standard'' ''mallory''), tracking_world)
   \<and> call_tool example_runtime ''mallory'' (CallUpdateTaskStatus 2 completed) tracking_world =
       (None, tracking_world)"
  using unprivileged_user_is_refused [OF mallory_not_allowed, of example_runtime 1 20
          tracking_world "''db-1''" False 2 completed]
        mallory_not_allowed
  by simp

text \<open>
  The claim as stated fails for updateTaskStatus: the call of a user outside the
  allow-list gets no envelope from the program at all.
\<close>

theorem updateTaskStatus_gives_no_forbidden_envelope:
  "call_tool example_runtime ''mallory'' (CallUpdateTaskStatus 2 completed) tracking_world
     = (None, tracking_world)"
  by (simp add: call_tool_def registerAllTools_def registerYouTubeTools_def
        registerNotionTools_def registerPRPTools_def ALLOWED_USERNAMES_def)

section \<open>Retry and backoff\<close>

lemma keeps_rate_limitingD:
  assumes "keeps_rate_limiting net"
  obtains r1 r2 r3 rest where "net = FetchResolves r1 # FetchResolves r2 # FetchResolves r3 # rest"
    and "resp_status r1 = 429" and "resp_status r2 = 429" and "resp_status r3 = 429"
proof -
  from assms have len: "3 \<le> length net" and all: "list_all rate_limited (take 3 net)"
    by (simp_all add: keeps_rate_limiting_def maxRetries_def)
  from len obtain a b c rest where net: "net = a # b # c # rest"
    by (cases net; cases "tl net"; cases "tl (tl net)") auto
  with all have "rate_limited a" "rate_limited b" "rate_limited c" by simp_all
  then obtain r1 r2 r3 where "a = FetchResolves r1" "b = FetchResolves r2" "c = FetchResolves r3"
    and "resp_status r1 = 429" "resp_status r2 = 429" "resp_status r3 = 429"
    by (auto simp: rate_limited_def split: fetch_outcome.splits)
  with net that show thesis by blast
qed

lemma digits_of_maxRetries: "digits_of maxRetries = ''3''"
  by code_simp

lemma youtube_three_attempts:
  assumes "keeps_rate_limiting (youtube_net w)"
  shows "youtube_makeRequest endpoint w =
           (Inl (YouTubeAPIError ''YouTube API rate limit exceeded'' (Some 429)
                   (Some (retry_after_text (retry_after_of (youtube_net w ! 2))))),
            w\<lparr>youtube_net := drop 3 (youtube_net w),
              effects := effects w @
                [HttpRequest YouTube ''GET'' (youtube_baseUrl @ ''/'' @ endpoint),
                 Backoff YouTube 1000,
                 HttpRequest YouTube ''GET'' (youtube_baseUrl @ ''/'' @ endpoint),
                 Backoff YouTube 2000,
                 HttpRequest YouTube ''GET'' (youtube_baseUrl @ ''/'' @ endpoint)]\<rparr>)"
proof -
  from assms obtain r1 r2 r3 rest
    where net: "youtube_net w = FetchResolves r1 # FetchResolves r2 # FetchResolves r3 # rest"
      and st: "resp_status r1 = 429" "resp_status r2 = 429" "resp_status r3 = 429"
    by (rule keeps_rate_limitingD)
  show ?thesis
    unfolding youtube_makeRequest_def
    by (simp add: youtube_loop.simps [of 0] youtube_loop.simps [of "Suc 0"]
          youtube_loop.simps [of "Suc (Suc 0)"] net st fetch_youtube_def delay_def
          log_effect_def maxRetries_def baseDelay_def retry_after_of_def)
qed

lemma gemini_three_attempts:
  assumes "keeps_rate_limiting (gemini_net w)"
  shows "gemini_makeRequest w =
           (Inl (GeminiAPIError ''Gemini API rate limit exceeded'' (Some 429)),
            w\<lparr>gemini_net := drop 3 (gemini_net w),
              effects := effects w @
                [HttpRequest Gemini ''POST'' gemini_url, Backoff Gemini 1000,
                 HttpRequest Gemini ''POST'' gemini_url, Backoff Gemini 2000,
                 HttpRequest Gemini ''POST'' gemini_url]\<rparr>)"
proof -
  from assms obtain r1 r2 r3 rest
    where net: "gemini_net w = FetchResolves r1 # FetchResolves r2 # FetchResolves r3 # rest"
      and st: "resp_status r1 = 429" "resp_status r2 = 429" "resp_status r3 = 429"
    by (rule keeps_rate_limitingD)
  show ?thesis
    unfolding gemini_makeRequest_def
    by (simp add: gemini_loop.simps [of 0] gemini_loop.simps [of "Suc 0"]
          gemini_loop.simps [of "Suc (Suc 0)"] net st fetch_gemini_def delay_def
          log_effect_def maxRetries_def baseDelay_def)
qed

lemma notion_three_attempts:
  assumes "keeps_rate_limiting (notion_net w)"
  shows "notion_makeRequest method endpoint w =
           (Inl (NotionAPIError ''Notion API rate limit exceeded'' (Some 429) None),
            w\<lparr>notion_net := drop 3 (notion_net w),
              effects := effects w @
                [HttpRequest Notion method (notion_baseUrl @ ''/'' @ endpoint),
                 Backoff Notion 1000,
                 HttpRequest Notion method (notion_baseUrl @ ''/'' @ endpoint),
                 Backoff Notion 2000,
                 HttpRequest Notion method (notion_baseUrl @ ''/'' @ endpoint)]\<rparr>)"
proof -
  from assms obtain r1 r2 r3 rest
    where net: "notion_net w = FetchResolves r1 # FetchResolves r2 # FetchResolves r3 # rest"
      and st: "resp_status r1 = 429" "resp_status r2 = 429" "resp_status r3 = 429"
    by (rule keeps_rate_limitingD)
  show ?thesis
    unfolding notion_makeRequest_def
    by (simp add: notion_loop.simps [of 0] notion_loop.simps [of "Suc 0"]
          notion_loop.simps [of "Suc (Suc 0)"] net st fetch_notion_def delay_def
          log_effect_def maxRetries_def baseDelay_def)
qed

lemma first_candidate_textD:
  assumes "first_candidate_text j = Some t"
  obtains others where "j = Inr (Some (Some t # others))"
  using assms by (cases j rule: first_candidate_text.cases) simp_all

lemma answers_malformed_textD:
  assumes "answers_malformed_text rt complaint net"
  obtains r rest reply others where "net = FetchResolves r # rest" and "resp_ok r"
    and "resp_json r = Inr (Some (Some reply # others))" and "reply \<noteq> []"
    and "JSON_parse rt (clean_response reply) = Inl complaint"
proof -
  from assms obtain r rest reply where "net = FetchResolves r # rest" and "resp_ok r"
    and "first_candidate_text (resp_json r) = Some reply" and "reply \<noteq> []"
    and "JSON_parse rt (clean_response reply) = Inl complaint"
    by (auto simp: answers_malformed_text_def
             split: list.splits fetch_outcome.splits option.splits)
  then show thesis using that by (auto elim: first_candidate_textD)
qed

lemma gemini_single_request:
  assumes "gemini_net w = FetchResolves r # rest" and "resp_ok r"
    and "resp_json r = Inr (Some (Some reply # others))" and "reply \<noteq> []"
  shows "gemini_makeRequest w =
           (Inr reply, w\<lparr>gemini_net := rest,
                        effects := effects w @ [HttpRequest Gemini ''POST'' gemini_url]\<rparr>)"
proof -
  from assms(2) have "resp_status r \<noteq> 429" by (simp add: resp_ok_def)
  with assms show ?thesis
    unfolding gemini_makeRequest_def
    by (simp add: gemini_loop.simps [of 0] fetch_gemini_def log_effect_def maxRetries_def)
qed

lemma malformed_text_not_retried:
  assumes "answers_malformed_text rt complaint (gemini_net w)"
  shows "parsePRPContent rt transcript metadata w =
           (Inl (Error (''Invalid JSON response from AI: '' @ complaint)),
            w\<lparr>gemini_net := tl (gemini_net w),
              effects := effects w @ [HttpRequest Gemini ''POST'' gemini_url]\<rparr>)"
    and "gemini_extractTasks rt prpContent maxTasks w =
           (Inl (Error (''Invalid JSON response from AI: '' @ complaint)),
            w\<lparr>gemini_net := tl (gemini_net w),
              effects := effects w @ [HttpRequest Gemini ''POST'' gemini_url]\<rparr>)"
proof -
  from assms obtain r rest reply others where net: "gemini_net w = FetchResolves r # rest"
    and ok: "resp_ok r" and js: "resp_json r = Inr (Some (Some reply # others))"
    and ne: "reply \<noteq> []" and bad: "JSON_parse rt (clean_response reply) = Inl complaint"
    by (rule answers_malformed_textD)
  note req = gemini_single_request [OF net ok js ne]
  show "parsePRPContent rt transcript metadata w =
           (Inl (Error (''Invalid JSON response from AI: '' @ complaint)),
            w\<lparr>gemini_net := tl (gemini_net w),
              effects := effects w @ [HttpRequest Gemini ''POST'' gemini_url]\<rparr>)"
    by (simp add: parsePRPContent_def catch_io_def bind_io_def throw_io_def req bad net)
  show "gemini_extractTasks rt prpContent maxTasks w =
           (Inl (Error (''Invalid JSON response from AI: '' @ complaint)),
            w\<lparr>gemini_net := tl (gemini_net w),
              effects := effects w @ [HttpRequest Gemini ''POST'' gemini_url]\<rparr>)"
    by (simp add: gemini_extractTasks_def catch_io_def bind_io_def throw_io_def req bad net)
qed

lemma keeps_answering_unparsableD:
  assumes "keeps_answering_unparsable net"
  obtains r1 r2 r3 c1 c2 c3 rest
  where "net = FetchResolves r1 # FetchResolves r2 # FetchResolves r3 # rest"
    and "resp_ok r1" and "resp_ok r2" and "resp_ok r3"
    and "resp_json r1 = Inl c1" and "resp_json r2 = Inl c2" and "resp_json r3 = Inl c3"
proof -
  from assms have len: "3 \<le> length net" and all: "list_all unparsable_body (take 3 net)"
    by (simp_all add: keeps_answering_unparsable_def maxRetries_def)
  from len obtain a b c rest where net: "net = a # b # c # rest"
    by (cases net; cases "tl net"; cases "tl (tl net)") auto
  with all have "unparsable_body a" "unparsable_body b" "unparsable_body c" by simp_all
  then obtain r1 r2 r3 where "a = FetchResolves r1" "b = FetchResolves r2" "c = FetchResolves r3"
    and "resp_ok r1" "resp_ok r2" "resp_ok r3"
    and "isl (resp_json r1)" "isl (resp_json r2)" "isl (resp_json r3)"
    by (auto simp: unparsable_body_def split: fetch_outcome.splits)
  with net that show thesis by (auto simp: isl_def)
qed

lemma gemini_unparsable_body_retried:
  assumes "keeps_answering_unparsable (gemini_net w)"
  shows "gemini_makeRequest w =
           (Inl (Error (''Gemini API request failed after 3 attempts: ''
                          @ error_to_string (SyntaxError (body_complaint (gemini_net w ! 2))))),
            w\<lparr>gemini_net := drop 3 (gemini_net w),
              effects := effects w @
                [HttpRequest Gemini ''POST'' gemini_url, Backoff Gemini 1000,
                 HttpRequest Gemini ''POST'' gemini_url, Backoff Gemini 2000,
                 HttpRequest Gemini ''POST'' gemini_url]\<rparr>)"
proof -
  from assms obtain r1 r2 r3 c1 c2 c3 rest
    where net: "gemini_net w = FetchResolves r1 # FetchResolves r2 # FetchResolves r3 # rest"
      and ok: "resp_ok r1" "resp_ok r2" "resp_ok r3"
      and js: "resp_json r1 = Inl c1" "resp_json r2 = Inl c2" "resp_json r3 = Inl c3"
    by (rule keeps_answering_unparsableD)
  from ok have st: "resp_status r1 \<noteq> 429" "resp_status r2 \<noteq> 429" "resp_status r3 \<noteq> 429"
    by (simp_all add: resp_ok_def)
  have three: "digits_of 3 = ''3''" by code_simp
  show ?thesis
    unfolding gemini_makeRequest_def
    by (simp add: gemini_loop.simps [of 0] gemini_loop.simps [of "Suc 0"]
          gemini_loop.simps [of "Suc (Suc 0)"] net st ok js fetch_gemini_def delay_def
          log_effect_def maxRetries_def baseDelay_def body_complaint_def three)
qed

lemma unparsable_body_reaches_caller:
  assumes "gemini_makeRequest w = (Inl (Error m), w')"
  shows "parsePRPContent rt transcript metadata w = (Inl (Error m), w')"
    and "gemini_extractTasks rt prpContent maxTasks w = (Inl (Error m), w')"
  using assms
  by (simp_all add: parsePRPContent_def gemini_extractTasks_def catch_io_def bind_io_def
        throw_io_def)

text \<open>
  C3 (amended). When the upstream answers the requests of a client with status 429, each
  of the three clients sends exactly three requests, the first one and two retries, with
  backoff delays of 1000 and 2000 ms (plus jitter) between them, and then throws its
  typed API error with status 429 (the error of the metadata client carries the
  Retry-After text of the last response, 60 by default). For the extraction endpoint: a
  2xx reply with a body that is JSON and a model text that JSON.parse rejects is not
  retried, parsePRPContent and extractTasks fail after that single request with
  "Invalid JSON response from AI: " and the message of the parser; a 2xx reply whose
  body itself is not JSON is retried like a transport failure, and after three requests
  parsePRPContent and extractTasks fail with the untyped error "Gemini API request
  failed after 3 attempts: " followed by the SyntaxError of the last body.
\<close>

theorem rate_limit_three_attempts_then_typed_error:
  assumes "keeps_rate_limiting (youtube_net wy)"
    and "keeps_rate_limiting (gemini_net wg)"
    and "keeps_rate_limiting (notion_net wn)"
    and "answers_malformed_text rt complaint (gemini_net wm)"
    and "keeps_answering_unparsable (gemini_net wu)"
  shows "youtube_makeRequest endpoint wy =
           (Inl (YouTubeAPIError ''YouTube API rate limit exceeded'' (Some 429)
                   (Some (retry_after_text (retry_after_of (youtube_net wy ! 2))))),
            wy\<lparr>youtube_net := drop 3 (youtube_net wy),
               effects := effects wy @
                 [HttpRequest YouTube ''GET'' (youtube_baseUrl @ ''/'' @ endpoint),
                  Backoff YouTube 1000,
                  HttpRequest YouTube ''GET'' (youtube_baseUrl @ ''/'' @ endpoint),
                  Backoff YouTube 2000,
                  HttpRequest YouTube ''GET'' (youtube_baseUrl @ ''/'' @ endpoint)]\<rparr>)
       \<and> gemini_makeRequest wg =
           (Inl (GeminiAPIError ''Gemini API rate limit exceeded'' (Some 429)),
            wg\<lparr>gemini_net := drop 3 (gemini_net wg),
               effects := effects wg @
                 [HttpRequest Gemini ''POST'' gemini_url, Backoff Gemini 1000,
                  HttpRequest Gemini ''POST'' gemini_url, Backoff Gemini 2000,
                  HttpRequest Gemini ''POST'' gemini_url]\<rparr>)
       \<and> notion_makeRequest method path wn =
           (Inl (NotionAPIError ''Notion API rate limit exceeded'' (Some 429) None),
            wn\<lparr>notion_net := drop 3 (notion_net wn),
               effects := effects wn @
                 [HttpRequest Notion method (notion_baseUrl @ ''/'' @ path),
                  Backoff Notion 1000,
                  HttpRequest Notion method (notion_baseUrl @ ''/'' @ path),
                  Backoff Notion 2000,
                  HttpRequest Notion method (notion_baseUrl @ ''/'' @ path)]\<rparr>)
       \<and> parsePRPContent rt transcript metadata wm =
           (Inl (Error (''Invalid JSON response from AI: '' @ complaint)),
            wm\<lparr>gemini_net := tl (gemini_net wm),
               effects := effects wm @ [HttpRequest Gemini ''POST'' gemini_url]\<rparr>)
       \<and> gemini_extractTasks rt prpContent maxTasks wm =
           (Inl (Error (''Invalid JSON response from AI: '' @ complaint)),
            wm\<lparr>gemini_net := tl (gemini_net wm),
               effects := effects wm @ [HttpRequest Gemini ''POST'' gemini_url]\<rparr>)
       \<and> parsePRPContent rt transcript metadata wu =
           (Inl (Error (''Gemini API request failed after 3 attempts: ''
                          @ error_to_string (SyntaxError (body_complaint (gemini_net wu ! 2))))),
            wu\<lparr>gemini_net := drop 3 (gemini_net wu),
               effects := effects wu @
                 [HttpRequest Gemini ''POST'' gemini_url, Backoff Gemini 1000,
                  HttpRequest Gemini ''POST'' gemini_url, Backoff Gemini 2000,
                  HttpRequest Gemini ''POST'' gemini_url]\<rparr>)
       \<and> gemini_extractTasks rt prpContent maxTasks wu =
           (Inl (Error (''Gemini API request failed after 3 attempts: ''
                          @ error_to_string (SyntaxError (body_complaint (gemini_net wu ! 2))))),
            wu\<lparr>gemini_net := drop 3 (gemini_net wu),
               effects := effects wu @
                 [HttpRequest Gemini ''POST'' gemini_url, Backoff Gemini 1000,
                  HttpRequest Gemini ''POST'' gemini_url, Backoff Gemini 2000,
                  HttpRequest Gemini ''POST'' gemini_url]\<rparr>)"
  using youtube_three_attempts [OF assms(1)] gemini_three_attempts [OF assms(2)]
        notion_three_attempts [OF assms(3)] malformed_text_not_retried [OF assms(4)]
        unparsable_body_reaches_caller [OF gemini_unparsable_body_retried [OF assms(5)]]
  by blast

lemma throttled_world_limited:
  "keeps_rate_limiting (youtube_net throttled_world)"
  "keeps_rate_limiting (gemini_net throttled_world)"
  "keeps_rate_limiting (notion_net throttled_world)"
  by (simp_all add: keeps_rate_limiting_def maxRetries_def throttled_world_def rate_limited_def
        too_many_requests_def eval_nat_numeral)

lemma garbled_world_malformed:
  "answers_malformed_text example_runtime ''Unexpected token in JSON at position 0''
     (gemini_net garbled_world)"
  by code_simp

lemma unparsable_world_unparsable:
  "keeps_answering_unparsable (gemini_net unparsable_world)"
  by code_simp

theorem rate_limit_three_attempts_then_typed_error_witness:
  "keeps_rate_limiting (youtube_net throttled_world)
   \<and> keeps_rate_limiting (gemini_net throttled_world)
   \<and> keeps_rate_limiting (notion_net throttled_world)
   \<and> answers_malformed_text example_runtime ''Unexpected token in JSON at position 0''
       (gemini_net garbled_world)
   \<and> keeps_answering_unparsable (gemini_net unparsable_world)
   \<and> fst (youtube_makeRequest ''videos'' throttled_world)
       = Inl (YouTubeAPIError ''YouTube API rate limit exceeded'' (Some 429) (Some ''60''))
   \<and> fst (gemini_makeRequest throttled_world)
       = Inl (GeminiAPIError ''Gemini API rate limit exceeded'' (Some 429))
   \<and> fst (notion_makeRequest ''POST'' ''pages'' throttled_world)
       = Inl (NotionAPIError ''Notion API rate limit exceeded'' (Some 429) None)
   \<and> fst (parsePRPContent example_runtime [] example_metadata garbled_world)
       = Inl (Error ''Invalid JSON response from AI: Unexpected token in JSON at position 0'')
   \<and> fst (parsePRPContent example_runtime [] example_metadata unparsable_world)
       = Inl (Error (''Gemini API request failed after 3 attempts: ''
                       @ ''SyntaxError: Unexpected token < in JSON at position 0''))"
proof -
  have hint: "retry_after_text (retry_after_of (youtube_net throttled_world ! 2)) = ''60''"
    by code_simp
  have last: "error_to_string (SyntaxError (body_complaint (gemini_net unparsable_world ! 2)))
                = ''SyntaxError: Unexpected token < in JSON at position 0''"
    by code_simp
  from rate_limit_three_attempts_then_typed_error
          [OF throttled_world_limited garbled_world_malformed unparsable_world_unparsable,
           of "''videos''" "''POST''" "''pages''" "[]" example_metadata]
        throttled_world_limited garbled_world_malformed unparsable_world_unparsable hint last
  show ?thesis by simp
qed

text \<open>
  The claim as stated fails twice. Under a persistent rate limit the extraction client
  sends three requests, that is two retries, not three retries after the first request.
  And a 2xx response of the extraction endpoint whose body is not JSON does not fail
  immediately: the request is sent three times before the error reaches the caller.
\<close>

theorem rate_limit_is_retried_twice:
  "request_count Gemini (snd (gemini_makeRequest throttled_world)) = 3
   \<and> request_count Gemini (snd (gemini_makeRequest throttled_world)) \<noteq> 1 + 3
   \<and> fst (gemini_makeRequest throttled_world)
       = Inl (GeminiAPIError ''Gemini API rate limit exceeded'' (Some 429))
   \<and> request_count Gemini
       (snd (parsePRPContent example_runtime [] example_metadata unparsable_world)) = 3
   \<and> fst (parsePRPContent example_runtime [] example_metadata unparsable_world)
       = Inl (Error ''Gemini API request failed after 3 attempts: SyntaxError: Unexpected token < in JSON at position 0'')"
  by code_simp

section \<open>Transcript retrieval\<close>

lemma getVideoMetadata_description:
  assumes "getVideoMetadata rt videoId w = (Inr metadata, w')"
  shows "\<exists>response. youtube_makeRequest ''videos'' w = (response, w')
                    \<and> served_description response = Some (vm_description metadata)"
  using assms
  unfolding getVideoMetadata_def bind_io_def throw_io_def return_io_def served_description_def
  by (auto split: prod.splits sum.splits option.splits list.splits yt_item.splits)

text \<open>
  C8 (amended). getVideoTranscript never returns caption text. When the caption request
  ends without a chosen track (it fails, or lists nothing), the metadata of the video are
  fetched once: the result is the description of the video, as the video service serves
  it, after the extraction-failed label, or the error of that fetch, thrown to the
  caller. When a track is found, the metadata are fetched inside the try block: the
  result is the description after the not-available label, and if that fetch fails the
  catch block fetches the metadata again and gives the description after the
  extraction-failed label or throws the error of this second fetch. So
  getVideoTranscript throws exactly when the metadata fetch of the catch block fails.
\<close>

theorem getVideoTranscript_description_or_error_of_last_fetch:
  assumes "youtube_makeRequest ''captions'' w = (listing, w1)"
    and "getVideoMetadata rt videoId w1 = (first, w2)"
    and "getVideoMetadata rt videoId w2 = (second, w3)"
  shows "getVideoTranscript rt videoId w =
           (if captions_found listing then
              (case first of
                 Inr metadata \<Rightarrow> (Inr (not_available_label @ vm_description metadata), w2)
               | Inl e \<Rightarrow>
                   (case second of
                      Inr metadata \<Rightarrow> (Inr (extraction_failed_label @ vm_description metadata), w3)
                    | Inl e2 \<Rightarrow> (Inl e2, w3)))
            else
              (case first of
                 Inr metadata \<Rightarrow> (Inr (extraction_failed_label @ vm_description metadata), w2)
               | Inl e \<Rightarrow> (Inl e, w2)))
       \<and> isl (fst (getVideoTranscript rt videoId w))
           = (if captions_found listing then isl first \<and> isl second else isl first)
       \<and> (\<forall>metadata. first = Inr metadata \<longrightarrow>
            (\<exists>response. youtube_makeRequest ''videos'' w1 = (response, w2)
                         \<and> served_description response = Some (vm_description metadata)))
       \<and> (\<forall>metadata. second = Inr metadata \<longrightarrow>
            (\<exists>response. youtube_makeRequest ''videos'' w2 = (response, w3)
                         \<and> served_description response = Some (vm_description metadata)))"
proof -
  have run: "getVideoTranscript rt videoId w =
           (if captions_found listing then
              (case first of
                 Inr metadata \<Rightarrow> (Inr (not_available_label @ vm_description metadata), w2)
               | Inl e \<Rightarrow>
                   (case second of
                      Inr metadata \<Rightarrow> (Inr (extraction_failed_label @ vm_description metadata), w3)
                    | Inl e2 \<Rightarrow> (Inl e2, w3)))
            else
              (case first of
                 Inr metadata \<Rightarrow> (Inr (extraction_failed_label @ vm_description metadata), w2)
               | Inl e \<Rightarrow> (Inl e, w2)))"
    using assms
    unfolding getVideoTranscript_def catch_io_def bind_io_def throw_io_def return_io_def
      captions_found_def
    by (auto split: prod.splits sum.splits option.splits list.splits)
  have thrown: "isl (fst (getVideoTranscript rt videoId w))
           = (if captions_found listing then isl first \<and> isl second else isl first)"
    unfolding run by (cases first; cases second) simp_all
  from run thrown getVideoMetadata_description [of rt videoId w1 _ w2]
    getVideoMetadata_description [of rt videoId w2 _ w3] assms(2,3)
  show ?thesis by blast
qed

theorem getVideoTranscript_description_or_error_of_last_fetch_witness:
  "\<not> captions_found (fst (youtube_makeRequest ''captions'' captionless_world))
   \<and> getVideoTranscript example_runtime ''dQw4w9WgXcQ'' captionless_world
       = (Inr (extraction_failed_label @ ''A walkthrough''),
          snd (getVideoMetadata example_runtime ''dQw4w9WgXcQ''
                 (snd (youtube_makeRequest ''captions'' captionless_world))))
   \<and> \<not> isl (fst (getVideoTranscript example_runtime ''dQw4w9WgXcQ'' captionless_world))"
proof -
  let ?L = "youtube_makeRequest ''captions'' captionless_world"
  let ?F = "getVideoMetadata example_runtime ''dQw4w9WgXcQ'' (snd ?L)"
  let ?G = "getVideoMetadata example_runtime ''dQw4w9WgXcQ'' (snd ?F)"
  have l: "?L = (fst ?L, snd ?L)" and f: "?F = (fst ?F, snd ?F)" and g: "?G = (fst ?G, snd ?G)"
    by simp_all
  have none: "\<not> captions_found (fst ?L)" by code_simp
  have first: "fst ?F = Inr example_metadata" by code_simp
  have descr: "vm_description example_metadata = ''A walkthrough''" by code_simp
  note all = getVideoTranscript_description_or_error_of_last_fetch [OF l f g]
  from all [THEN conjunct1] all [THEN conjunct2, THEN conjunct1] none first descr
  show ?thesis by simp
qed

text \<open>
  The claim as stated fails: when the video service lists no captions and does not
  serve the video either, getVideoTranscript throws.
\<close>

theorem getVideoTranscript_throws_when_video_is_gone:
  "fst (getVideoTranscript example_runtime ''dQw4w9WgXcQ'' vanished_video_world)
     = Inl (Error ''Video not found: dQw4w9WgXcQ'')"
  by code_simp

text \<open>
  A failed metadata fetch inside the try block is not thrown: the catch block fetches
  the metadata again and the description is returned under the extraction-failed label.
\<close>

lemma getVideoTranscript_fetches_again_after_failed_fetch:
  "captions_found (fst (youtube_makeRequest ''captions'' recovering_world))
   \<and> fst (getVideoMetadata example_runtime ''dQw4w9WgXcQ''
             (snd (youtube_makeRequest ''captions'' recovering_world)))
       = Inl (YouTubeAPIError ''YouTube API error: 500 - backend error'' (Some 500) None)
   \<and> fst (getVideoTranscript example_runtime ''dQw4w9WgXcQ'' recovering_world)
       = Inr (extraction_failed_label @ ''A walkthrough'')
   \<and> request_count YouTube
         (snd (getVideoTranscript example_runtime ''dQw4w9WgXcQ'' recovering_world)) = 3"
  by code_simp

section \<open>Sync to the document store\<close>

text \<open>
  C1. Evaluation of syncToNotion at a PRP that is already synced to page-1, with
  update_existing = false and a document store that works: no lookup is made, the
  already-synced branch is not reached, a second page is created and the stored page
  id is overwritten with it.
\<close>

theorem syncToNotion_resync_creates_second_page:
  "fst (syncToNotion ''coleam00'' 1 ''db-1'' False synced_world)
     = SuccessResponse (''Successfully synced PRP '' @ dq @ ''MCP server'' @ dq @ '' to Notion'')
         (SyncData \<lparr> out_page_id = ''page-2'', out_page_url = ''https://notion.so/page2'',
                     out_status = synced, out_error = None \<rparr>)
   \<and> effects (snd (syncToNotion ''coleam00'' 1 ''db-1'' False synced_world))
       = [DbConnect,
          HttpRequest Notion ''GET'' ''https://api.notion.com/v1/databases/db-1'',
          HttpRequest Notion ''POST'' ''https://api.notion.com/v1/pages'',
          DbConnect]
   \<and> map prp_notion_page_id (parsed_prps synced_world) = [Some ''page-1'']
   \<and> map prp_notion_page_id (parsed_prps (snd (syncToNotion ''coleam00'' 1 ''db-1'' False synced_world)))
       = [Some ''page-2'']"
  by code_simp

section \<open>Status and completion fields\<close>

lemma completion_recorded_set_task_status:
  "completion_recorded (set_task_status status login t r)"
  by (simp add: completion_recorded_def set_task_status_def)

lemma completion_recorded_tasks_after_update:
  "list_all completion_recorded (prp_tasks w)
     \<Longrightarrow> list_all completion_recorded (tasks_after_update tid status login w)"
  by (induction "prp_tasks w" arbitrary: w)
     (auto simp: tasks_after_update_def list_all_iff completion_recorded_set_task_status)

lemma completion_fields_kept:
  "status \<noteq> completed \<Longrightarrow>
     map task_completed_at (tasks_after_update tid status login w) = map task_completed_at (prp_tasks w)
   \<and> map task_completed_by (tasks_after_update tid status login w) = map task_completed_by (prp_tasks w)"
  by (simp add: tasks_after_update_def set_task_status_def)

lemma updateTaskStatus_tasks:
  assumes "updateTaskStatus login tid status w = (resp, w')"
  shows "prp_tasks w' = prp_tasks w \<or> prp_tasks w' = tasks_after_update tid status login w"
  using assms
  unfolding updateTaskStatus_def tool_boundary_def bind_io_def withDatabase_def update_task_def
    throw_io_def return_io_def log_effect_def tasks_after_update_def Let_def
  by (auto split: prod.splits sum.splits option.splits list.splits if_splits)

lemma new_rows_pending:
  "list_all completion_recorded
     (map (new_task_row i t) (enumerate n (map (parse_task_value pid) xs)))"
  "list_all completion_recorded
     (map (new_task_row i t) (enumerate n (map (extract_task_value pid k) xs)))"
  by (induction xs arbitrary: n;
      simp add: new_task_row_def completion_recorded_def parse_task_value_def
        extract_task_value_def split: prod.splits)+

text \<open>
  C6 (amended). A completed task carries both completion fields: the rows that parse and
  extract-more insert are pending with both fields null, and updateTaskStatus keeps the
  property for every task. An update to a status other than completed leaves the two
  fields of every task as they were, so they stay set when a completed task is moved
  to another status.
\<close>

theorem completed_tasks_keep_completion_fields:
  assumes "list_all completion_recorded (prp_tasks w)"
    and "updateTaskStatus login tid status w = (resp, w')"
  shows "list_all completion_recorded (prp_tasks w')
       \<and> (status \<noteq> completed \<longrightarrow>
            map task_completed_at (prp_tasks w') = map task_completed_at (prp_tasks w)
          \<and> map task_completed_by (prp_tasks w') = map task_completed_by (prp_tasks w))
       \<and> list_all completion_recorded
            (map (new_task_row i t) (enumerate n (map (parse_task_value pid) xs)))
       \<and> list_all completion_recorded
            (map (new_task_row i t) (enumerate n (map (extract_task_value pid k) xs)))"
proof -
  from updateTaskStatus_tasks [OF assms(2)]
  have "prp_tasks w' = prp_tasks w \<or> prp_tasks w' = tasks_after_update tid status login w" .
  then show ?thesis
    using assms(1) completion_recorded_tasks_after_update [OF assms(1), of tid status login]
      completion_fields_kept [of status tid login w] new_rows_pending(1) [of i t n pid xs] new_rows_pending(2) [of i t n pid k xs]
    by auto
qed

theorem completed_tasks_keep_completion_fields_witness:
  "list_all completion_recorded (prp_tasks tracking_world)
   \<and> map task_status (prp_tasks (snd (updateTaskStatus ''coleam00'' 2 completed tracking_world)))
       = [completed]
   \<and> list_all completion_recorded
       (prp_tasks (snd (updateTaskStatus ''coleam00'' 2 completed tracking_world)))"
proof -
  have inv: "list_all completion_recorded (prp_tasks tracking_world)" by code_simp
  have run: "updateTaskStatus ''coleam00'' 2 completed tracking_world
               = (fst (updateTaskStatus ''coleam00'' 2 completed tracking_world),
                  snd (updateTaskStatus ''coleam00'' 2 completed tracking_world))"
    by simp
  have st: "map task_status (prp_tasks (snd (updateTaskStatus ''coleam00'' 2 completed tracking_world)))
              = [completed]"
    by code_simp
  from completed_tasks_keep_completion_fields [OF inv run] inv st show ?thesis by blast
qed

text \<open>
  The claim as stated fails: a task that was completed and is then set back to pending
  is not completed and still has both completion fields set.
\<close>

theorem reopened_task_keeps_completion_fields:
  "map (\<lambda>t. (task_status t, task_completed_at t, task_completed_by t))
     (prp_tasks (snd (updateTaskStatus ''coleam00'' 2 pending
                        (snd (updateTaskStatus ''coleam00'' 2 completed tracking_world)))))
     = [(pending, Some 100, Some ''coleam00'')]"
  by code_simp

section \<open>What the clients leave untouched\<close>

lemma same_tables_refl [simp]: "same_tables w w"
  by (simp add: same_tables_def)

lemma same_tables_trans: "same_tables a b \<Longrightarrow> same_tables b c \<Longrightarrow> same_tables a c"
  by (simp add: same_tables_def)

lemma same_tables_log [simp]: "same_tables w (log_effect e w)"
  by (simp add: same_tables_def log_effect_def)

lemma same_tables_delay [simp]: "same_tables w (delay c a w)"
  by (simp add: delay_def)

lemma fetch_youtube_tables: "fetch_youtube url w = (out, w') \<Longrightarrow> same_tables w w'"
  by (auto simp: fetch_youtube_def same_tables_def log_effect_def split: list.splits)

lemma fetch_gemini_tables: "fetch_gemini url w = (out, w') \<Longrightarrow> same_tables w w'"
  by (auto simp: fetch_gemini_def same_tables_def log_effect_def split: list.splits)

lemma fetch_notion_tables: "fetch_notion m url w = (out, w') \<Longrightarrow> same_tables w w'"
  by (auto simp: fetch_notion_def same_tables_def log_effect_def split: list.splits)

lemma youtube_fetch_then:
  "fetch_youtube url w = (out, w1) \<Longrightarrow> same_tables (delay YouTube a w1) w' \<Longrightarrow> same_tables w w'"
  by (drule fetch_youtube_tables) (simp add: same_tables_def delay_def log_effect_def)

lemma youtube_loop_tables: "youtube_loop attempt url w = (r, w') \<Longrightarrow> same_tables w w'"
proof (induction "maxRetries - attempt" arbitrary: attempt w r w')
  case 0
  then show ?case by (simp add: youtube_loop.simps [of attempt])
next
  case (Suc k)
  have next_call: "same_tables w2 w2'" if "youtube_loop (Suc attempt) url w2 = (r2, w2')" for w2 r2 w2'
    using Suc.hyps(1) [of "Suc attempt" w2 r2 w2'] Suc.hyps(2) that by simp
  from Suc.hyps(2) have lt: "attempt < maxRetries" by simp
  from Suc.prems lt show ?case
    by (subst (asm) youtube_loop.simps)
       (auto split: prod.splits fetch_outcome.splits if_splits sum.splits option.splits
                    list.splits
             dest!: next_call intro: youtube_fetch_then fetch_youtube_tables)
qed

lemma gemini_fetch_then:
  "fetch_gemini url w = (out, w1) \<Longrightarrow> same_tables (delay Gemini a w1) w' \<Longrightarrow> same_tables w w'"
  by (drule fetch_gemini_tables) (simp add: same_tables_def delay_def log_effect_def)

lemma gemini_loop_tables: "gemini_loop attempt url w = (r, w') \<Longrightarrow> same_tables w w'"
proof (induction "maxRetries - attempt" arbitrary: attempt w r w')
  case 0
  then show ?case by (simp add: gemini_loop.simps [of attempt])
next
  case (Suc k)
  have next_call: "same_tables w2 w2'" if "gemini_loop (Suc attempt) url w2 = (r2, w2')" for w2 r2 w2'
    using Suc.hyps(1) [of "Suc attempt" w2 r2 w2'] Suc.hyps(2) that by simp
  from Suc.hyps(2) have lt: "attempt < maxRetries" by simp
  from Suc.prems lt show ?case
    by (subst (asm) gemini_loop.simps)
       (auto split: prod.splits fetch_outcome.splits if_splits sum.splits option.splits
                    list.splits
             dest!: next_call intro: gemini_fetch_then fetch_gemini_tables)
qed

lemma notion_fetch_then:
  "fetch_notion m url w = (out, w1) \<Longrightarrow> same_tables (delay Notion a w1) w' \<Longrightarrow> same_tables w w'"
  by (drule fetch_notion_tables) (simp add: same_tables_def delay_def log_effect_def)

lemma notion_loop_tables: "notion_loop attempt m url w = (r, w') \<Longrightarrow> same_tables w w'"
proof (induction "maxRetries - attempt" arbitrary: attempt w r w')
  case 0
  then show ?case by (simp add: notion_loop.simps [of attempt])
next
  case (Suc k)
  have next_call: "same_tables w2 w2'" if "notion_loop (Suc attempt) m url w2 = (r2, w2')" for w2 r2 w2'
    using Suc.hyps(1) [of "Suc attempt" w2 r2 w2'] Suc.hyps(2) that by simp
  from Suc.hyps(2) have lt: "attempt < maxRetries" by simp
  from Suc.prems lt show ?case
    by (subst (asm) notion_loop.simps)
       (auto split: prod.splits fetch_outcome.splits if_splits sum.splits option.splits
                    list.splits
             dest!: next_call intro: notion_fetch_then fetch_notion_tables)
qed

lemma bind_io_tables:
  assumes "bind_io m f w = (r, w')"
    and "\<And>x w1. m w = (x, w1) \<Longrightarrow> same_tables w w1"
    and "\<And>x w1. m w = (Inr x, w1) \<Longrightarrow> f x w1 = (r, w') \<Longrightarrow> same_tables w1 w'"
  shows "same_tables w w'"
  using assms
  by (auto simp: bind_io_def split: prod.splits sum.splits intro: same_tables_trans)

lemma catch_io_tables:
  assumes "catch_io m h w = (r, w')"
    and "\<And>x w1. m w = (x, w1) \<Longrightarrow> same_tables w w1"
    and "\<And>e w1. m w = (Inl e, w1) \<Longrightarrow> h e w1 = (r, w') \<Longrightarrow> same_tables w1 w'"
  shows "same_tables w w'"
  using assms
  by (auto simp: catch_io_def split: prod.splits sum.splits intro: same_tables_trans)

lemma return_io_tables: "return_io x w = (r, w') \<Longrightarrow> same_tables w w'"
  by (auto simp: return_io_def)

lemma throw_io_tables: "throw_io e w = (r, w') \<Longrightarrow> same_tables w w'"
  by (auto simp: throw_io_def)

lemma new_client_tables: "new_client c msg w = (r, w') \<Longrightarrow> same_tables w w'"
  by (auto simp: new_client_def throw_io_def return_io_def split: if_splits)

lemma youtube_makeRequest_tables: "youtube_makeRequest e w = (r, w') \<Longrightarrow> same_tables w w'"
  unfolding youtube_makeRequest_def by (rule youtube_loop_tables)

lemma gemini_makeRequest_tables: "gemini_makeRequest w = (r, w') \<Longrightarrow> same_tables w w'"
  unfolding gemini_makeRequest_def by (rule gemini_loop_tables)

lemma notion_makeRequest_tables: "notion_makeRequest m e w = (r, w') \<Longrightarrow> same_tables w w'"
  unfolding notion_makeRequest_def by (rule notion_loop_tables)

lemma getVideoMetadata_tables: "getVideoMetadata rt v w = (r, w') \<Longrightarrow> same_tables w w'"
  unfolding getVideoMetadata_def
  by (erule bind_io_tables)
     (auto dest: youtube_makeRequest_tables
           simp: throw_io_def return_io_def split: option.splits list.splits yt_item.splits)

lemma getVideoTranscript_tables: "getVideoTranscript rt v w = (r, w') \<Longrightarrow> same_tables w w'"
  unfolding getVideoTranscript_def catch_io_def bind_io_def throw_io_def return_io_def
  by (auto split: prod.splits sum.splits option.splits list.splits
           dest!: youtube_makeRequest_tables getVideoMetadata_tables
           intro: same_tables_trans)

lemma parsePRPContent_tables: "parsePRPContent rt t m w = (r, w') \<Longrightarrow> same_tables w w'"
  unfolding parsePRPContent_def catch_io_def bind_io_def throw_io_def return_io_def
  by (auto split: prod.splits sum.splits option.splits error.splits
           dest!: gemini_makeRequest_tables)

lemma gemini_extractTasks_tables: "gemini_extractTasks rt c k w = (r, w') \<Longrightarrow> same_tables w w'"
  unfolding gemini_extractTasks_def catch_io_def bind_io_def throw_io_def return_io_def
  by (auto split: prod.splits sum.splits option.splits error.splits ai_json.splits
           dest!: gemini_makeRequest_tables)

lemma validateDatabase_tables: "validateDatabase d w = (r, w') \<Longrightarrow> same_tables w w'"
  unfolding validateDatabase_def catch_io_def bind_io_def throw_io_def return_io_def
  by (auto split: prod.splits sum.splits option.splits error.splits if_splits
           dest!: notion_makeRequest_tables)

lemma createDatabasePage_tables: "createDatabasePage d c w = (r, w') \<Longrightarrow> same_tables w w'"
  unfolding createDatabasePage_def bind_io_def throw_io_def return_io_def
  by (auto split: prod.splits sum.splits if_splits
           dest!: notion_makeRequest_tables validateDatabase_tables intro: same_tables_trans)

section \<open>What the store does\<close>

lemma withDatabase_success:
  assumes "withDatabase work w = (Inr x, w')"
  obtains w0 where "same_tables w w0" and "work w0 = (Inr x, w')"
proof (cases "db_outages w")
  case Nil
  with assms have "work (log_effect DbConnect w) = (Inr x, w')"
    by (auto simp: withDatabase_def Let_def log_effect_def split: prod.splits sum.splits)
  moreover have "same_tables w (log_effect DbConnect w)" by simp
  ultimately show thesis using that by blast
next
  case (Cons down rest)
  with assms have "work ((log_effect DbConnect w)\<lparr>db_outages := rest\<rparr>) = (Inr x, w')"
    by (auto simp: withDatabase_def Let_def log_effect_def
             split: prod.splits sum.splits if_splits)
  moreover have "same_tables w ((log_effect DbConnect w)\<lparr>db_outages := rest\<rparr>)"
    by (simp add: same_tables_def log_effect_def)
  ultimately show thesis using that by blast
qed

lemma withDatabase_failure:
  assumes "withDatabase work w = (Inl e, w')"
  shows "same_tables w w'"
  using assms
  unfolding withDatabase_def Let_def
  by (auto simp: same_tables_def log_effect_def
           split: list.splits if_splits prod.splits sum.splits)

lemma update_prp_result:
  assumes "update_prp i f w = (r, w')"
  shows "r = Inr ()"
    and "prp_tasks w' = prp_tasks w"
    and "next_uuid w' = next_uuid w"
    and "parsed_prps w' =
           map (\<lambda>row. if prp_id row = i then (f row)\<lparr>prp_updated_at := clock w\<rparr> else row)
               (parsed_prps w)"
  using assms by (auto simp: update_prp_def)

lemma sync_try_failure_tables:
  assumes "sync_try pid d c w = (Inl (error, page), w')"
  shows "same_tables w w'"
  using assms
  unfolding sync_try_def bind_io_def
  by (auto split: prod.splits sum.splits
           dest!: new_client_tables createDatabasePage_tables withDatabase_failure
           intro: same_tables_trans)

lemma insert_prp_tasks_success:
  assumes "insert_prp_tasks vs w = (Inr rows, w')"
  shows "rows = map (new_task_row (next_uuid w) (clock w)) (enumerate 0 vs)
       \<and> prp_tasks w' = prp_tasks w @ rows
       \<and> parsed_prps w' = parsed_prps w
       \<and> next_uuid w' = next_uuid w + length vs"
  using assms by (auto simp: insert_prp_tasks_def Let_def split: if_splits)

lemma store_parsed_prp_success:
  assumes "store_parsed_prp url vid md tr content login w = (Inr prp, w')"
  shows "prp_id prp = next_uuid w"
    and "prp_parsed_content prp = content"
    and "parsed_prps w' = parsed_prps w @ [prp]"
    and "prp_tasks w' = prp_tasks w
           @ map (new_task_row (Suc (next_uuid w)) (clock w))
               (enumerate 0 (map (parse_task_value (next_uuid w)) (enumerate 0 (pc_tasks content))))"
proof -
  define row where "row = \<lparr> prp_id = next_uuid w, prp_youtube_url = url, prp_video_id = vid,
      prp_video_title = vm_title md, prp_channel_title = vm_channelTitle md,
      prp_transcript = tr, prp_parsed_content = content, prp_created_by = login,
      prp_updated_at = clock w, prp_notion_page_id = None, prp_notion_sync_status = not_synced,
      prp_notion_sync_error = None, prp_notion_synced_at = None \<rparr>"
  define w1 where "w1 = w\<lparr>parsed_prps := parsed_prps w @ [row], next_uuid := next_uuid w + 1\<rparr>"
  have ins: "insert_prp url vid md tr content login w = (Inr row, w1)"
    by (simp add: insert_prp_def row_def w1_def Let_def)
  have facts: "prp = row \<and> parsed_prps w' = parsed_prps w @ [row]
        \<and> prp_tasks w' = prp_tasks w
           @ map (new_task_row (Suc (next_uuid w)) (clock w))
               (enumerate 0 (map (parse_task_value (next_uuid w)) (enumerate 0 (pc_tasks content))))"
  proof (cases "pc_tasks content = []")
    case True
    with assms ins show ?thesis
      by (auto simp: store_parsed_prp_def bind_io_def return_io_def w1_def)
  next
    case False
    with assms ins obtain rows where
      "insert_prp_tasks (map (parse_task_value (prp_id row)) (enumerate 0 (pc_tasks content))) w1
         = (Inr rows, w')" and "prp = row"
      by (auto simp: store_parsed_prp_def bind_io_def return_io_def
               split: prod.splits sum.splits)
    from insert_prp_tasks_success [OF this(1)] \<open>prp = row\<close> show ?thesis
      by (simp add: w1_def row_def)
  qed
  then show "prp_id prp = next_uuid w" and "prp_parsed_content prp = content"
    and "parsed_prps w' = parsed_prps w @ [prp]"
    and "prp_tasks w' = prp_tasks w
           @ map (new_task_row (Suc (next_uuid w)) (clock w))
               (enumerate 0 (map (parse_task_value (next_uuid w)) (enumerate 0 (pc_tasks content))))"
    by (simp_all add: row_def)
qed

lemma bind_io_InrE:
  assumes "bind_io m f w = (Inr y, w')"
  obtains x w1 where "m w = (Inr x, w1)" and "f x w1 = (Inr y, w')"
  using assms by (auto simp: bind_io_def split: prod.splits sum.splits)

lemma parse_and_store_success:
  assumes "parse_and_store rt login url vid w = (Inr (md, content, prp), w')"
  obtains w0 tr where "same_tables w w0"
    and "store_parsed_prp url vid md tr content login w0 = (Inr prp, w')"
proof -
  from assms obtain w1 w2 w3 w4 w5 tr
    where c1: "new_client (YOUTUBE_API_KEY w) ''YouTube API key is required'' w = (Inr (), w1)"
      and c2: "new_client (GEMINI_API_KEY w1) ''Gemini API key is required'' w1 = (Inr (), w2)"
      and m: "getVideoMetadata rt vid w2 = (Inr md, w3)"
      and t: "getVideoTranscript rt vid w3 = (Inr tr, w4)"
      and p: "parsePRPContent rt tr md w4 = (Inr content, w5)"
      and s: "withDatabase (store_parsed_prp url vid md tr content login) w5 = (Inr prp, w')"
    unfolding parse_and_store_def
    by (elim bind_io_InrE) (auto simp: return_io_def)
  from s obtain w0 where t0: "same_tables w5 w0"
    and st: "store_parsed_prp url vid md tr content login w0 = (Inr prp, w')"
    by (rule withDatabase_success)
  have "same_tables w w0"
    using new_client_tables [OF c1] new_client_tables [OF c2] getVideoMetadata_tables [OF m]
      getVideoTranscript_tables [OF t] parsePRPContent_tables [OF p] t0
    by (simp add: same_tables_def)
  with st show thesis using that by blast
qed

section \<open>Inline sync of the parse operation\<close>

lemma find_after_mark_failed:
  assumes "row \<in> set rows" and "prp_id row = i"
  shows "\<exists>r. find (\<lambda>r. prp_id r = i)
               (map (\<lambda>row. if prp_id row = i then (mark_failed msg row)\<lparr>prp_updated_at := t\<rparr> else row)
                    rows) = Some r
             \<and> prp_notion_sync_status r = failed \<and> prp_notion_sync_error r = Some msg"
  using assms by (induction rows) (auto simp: mark_failed_def)

lemma parseYoutubePRP_after_store:
  assumes "extractVideoId youtube_url = Inr videoId"
    and "parse_and_store rt login youtube_url videoId w = (Inr stored, w1)"
  shows "parseYoutubePRP rt login youtube_url notion_database_id auto_sync w =
           (case sync_and_respond notion_database_id auto_sync stored w1 of
              (Inr r, w2) \<Rightarrow> (r, w2)
            | (Inl e, w2) \<Rightarrow> (ErrorResponse ''Failed to parse YouTube PRP'' (FailureDetails e), w2))"
  using assms
  by (simp add: parseYoutubePRP_def tool_boundary_def parseYoutubePRP_body_def bind_io_def)

text \<open>
  C5 (amended). When the PRP and its tasks have been inserted and auto-sync with a
  target was requested, a failure of the inline sync (of the client, of the page
  creation or of the write of the synced state) is answered by a write of the failed
  state. If that write succeeds, the PRP row carries the status failed with the error
  message and the parse returns its success response with sync_status failed. If that
  write fails too, the tables stay as the insertion left them and the parse returns the
  error envelope with the error of the write.
\<close>

theorem inline_sync_failure_does_not_fail_parse:
  assumes "extractVideoId youtube_url = Inr videoId"
    and "parse_and_store rt login youtube_url videoId w
           = (Inr (metadata, prpContent, prp), w1)"
    and "truthy notion_database_id"
    and "sync_try (prp_id prp) (or_default notion_database_id []) prpContent w1
           = (Inl (error, page), w2)"
    and "withDatabase (update_prp (prp_id prp) (mark_failed (error_message error))) w2
           = (written, w3)"
  shows "(written = Inr () \<longrightarrow>
            parseYoutubePRP rt login youtube_url notion_database_id True w
              = (SuccessResponse
                   (''Parsed PRP from YouTube video: '' @ dq @ vm_title metadata @ dq)
                   (ParseData \<lparr> out_prp_id = prp_id prp, out_prp_name = pc_name prpContent,
                                out_video_title = vm_title metadata,
                                out_channel_title = vm_channelTitle metadata,
                                out_task_count = length (pc_tasks prpContent),
                                out_notion_page_id = page, out_sync_status = failed \<rparr>), w3)
          \<and> (\<exists>row. select_prp (prp_id prp) w3 = Some row
                \<and> prp_notion_sync_status row = failed
                \<and> prp_notion_sync_error row = Some (error_message error)))
       \<and> (\<forall>e. written = Inl e \<longrightarrow>
            parseYoutubePRP rt login youtube_url notion_database_id True w
              = (ErrorResponse ''Failed to parse YouTube PRP'' (FailureDetails e), w3)
          \<and> same_tables w1 w3)"
proof (intro conjI impI allI)
  note run = parseYoutubePRP_after_store [OF assms(1,2), of notion_database_id True]
  {
    assume ok: "written = Inr ()"
    with assms(3,4,5) run
    show "parseYoutubePRP rt login youtube_url notion_database_id True w
              = (SuccessResponse
                   (''Parsed PRP from YouTube video: '' @ dq @ vm_title metadata @ dq)
                   (ParseData \<lparr> out_prp_id = prp_id prp, out_prp_name = pc_name prpContent,
                                out_video_title = vm_title metadata,
                                out_channel_title = vm_channelTitle metadata,
                                out_task_count = length (pc_tasks prpContent),
                                out_notion_page_id = page, out_sync_status = failed \<rparr>), w3)"
      by (simp add: sync_and_respond_def auto_sync_block_def record_sync_failure_def
            bind_io_def return_io_def)
    from assms(2) obtain w0 tr where "same_tables w w0"
      and st: "store_parsed_prp youtube_url videoId metadata tr prpContent login w0 = (Inr prp, w1)"
      by (rule parse_and_store_success)
    from store_parsed_prp_success(3) [OF st] have "prp \<in> set (parsed_prps w1)" by simp
    moreover from sync_try_failure_tables [OF assms(4)]
    have "parsed_prps w2 = parsed_prps w1" by (simp add: same_tables_def)
    ultimately have mem: "prp \<in> set (parsed_prps w2)" by simp
    from assms(5) ok obtain wd where sd: "same_tables w2 wd"
      and up: "update_prp (prp_id prp) (mark_failed (error_message error)) wd = (Inr (), w3)"
      by (auto elim: withDatabase_success)
    from update_prp_result(4) [OF up] sd
    have "parsed_prps w3 =
            map (\<lambda>row. if prp_id row = prp_id prp
                        then (mark_failed (error_message error) row)\<lparr>prp_updated_at := clock wd\<rparr>
                        else row) (parsed_prps w2)"
      by (simp add: same_tables_def)
    with find_after_mark_failed [OF mem refl, where msg = "error_message error" and t = "clock wd"]
    show "\<exists>row. select_prp (prp_id prp) w3 = Some row
                \<and> prp_notion_sync_status row = failed
                \<and> prp_notion_sync_error row = Some (error_message error)"
      by (simp add: select_prp_def)
  }
  {
    fix e assume bad: "written = Inl e"
    with assms(3,4,5) run
    show "parseYoutubePRP rt login youtube_url notion_database_id True w
              = (ErrorResponse ''Failed to parse YouTube PRP'' (FailureDetails e), w3)"
      by (simp add: sync_and_respond_def auto_sync_block_def record_sync_failure_def
            bind_io_def return_io_def)
    from assms(5) bad have "same_tables w2 w3" by (auto dest: withDatabase_failure)
    with sync_try_failure_tables [OF assms(4)] show "same_tables w1 w3"
      by (rule same_tables_trans)
  }
qed

text \<open>
  The claim as stated fails: the target database is missing and the store is unreachable
  when the failure is to be recorded. The PRP and its two tasks have been inserted, the
  sync state of the row is still not_synced, and the parse returns an error envelope.
\<close>

theorem parse_fails_when_failure_cannot_be_recorded:
  "fst (parseYoutubePRP example_runtime ''coleam00'' example_url (Some ''db-1'') True
          store_outage_world)
     = ErrorResponse ''Failed to parse YouTube PRP''
         (FailureDetails (Error ''Database connection failed''))
   \<and> map prp_notion_sync_status
       (parsed_prps (snd (parseYoutubePRP example_runtime ''coleam00'' example_url
                            (Some ''db-1'') True store_outage_world)))
       = [not_synced]
   \<and> map task_order_num
       (prp_tasks (snd (parseYoutubePRP example_runtime ''coleam00'' example_url
                          (Some ''db-1'') True store_outage_world)))
       = [1, 2]"
  by code_simp

theorem inline_sync_failure_does_not_fail_parse_witness:
  "extractVideoId example_url = Inr ''dQw4w9WgXcQ''
   \<and> truthy (Some ''db-1'')
   \<and> (\<exists>msg data. fst (parseYoutubePRP example_runtime ''coleam00'' example_url (Some ''db-1'')
                         True sync_target_missing_world)
                    = SuccessResponse msg (ParseData data)
                  \<and> out_sync_status data = failed)
   \<and> map prp_notion_sync_status
       (parsed_prps (snd (parseYoutubePRP example_runtime ''coleam00'' example_url
                            (Some ''db-1'') True sync_target_missing_world)))
       = [failed]"
proof -
  let ?S = "parse_and_store example_runtime ''coleam00'' example_url ''dQw4w9WgXcQ''
              sync_target_missing_world"
  let ?md = "fst (projr (fst ?S))"
  let ?content = "fst (snd (projr (fst ?S)))"
  let ?prp = "snd (snd (projr (fst ?S)))"
  let ?T = "sync_try (prp_id ?prp) (or_default (Some ''db-1'') []) ?content (snd ?S)"
  let ?error = "fst (projl (fst ?T))"
  let ?page = "snd (projl (fst ?T))"
  let ?W = "withDatabase (update_prp (prp_id ?prp) (mark_failed (error_message ?error))) (snd ?T)"
  have url: "extractVideoId example_url = Inr ''dQw4w9WgXcQ''" by code_simp
  have target: "truthy (Some ''db-1'')" by code_simp
  have "\<not> isl (fst ?S)" by code_simp
  then have stored: "?S = (Inr (?md, ?content, ?prp), snd ?S)"
    by (cases "fst ?S") (simp_all add: prod_eq_iff)
  have "isl (fst ?T)" by code_simp
  then have sync: "?T = (Inl (?error, ?page), snd ?T)"
    by (cases "fst ?T") (simp_all add: prod_eq_iff)
  have written: "?W = (fst ?W, snd ?W)" by simp
  have ok: "fst ?W = Inr ()" by code_simp
  have sts: "map prp_notion_sync_status
       (parsed_prps (snd (parseYoutubePRP example_runtime ''coleam00'' example_url
                            (Some ''db-1'') True sync_target_missing_world)))
       = [failed]" by code_simp
  from inline_sync_failure_does_not_fail_parse [OF url stored target sync written] ok
  have "\<exists>msg data. fst (parseYoutubePRP example_runtime ''coleam00'' example_url (Some ''db-1'')
                         True sync_target_missing_world)
                    = SuccessResponse msg (ParseData data)
                  \<and> out_sync_status data = failed"
    by simp
  with url target sts show ?thesis by blast
qed

section \<open>Task numbering\<close>

lemma same_tables_content: "same_tables w w' \<Longrightarrow> same_content w w'"
  by (simp add: same_tables_def same_content_def)

lemma same_content_trans: "same_content a b \<Longrightarrow> same_content b c \<Longrightarrow> same_content a c"
  by (simp add: same_content_def)

lemma update_prp_content:
  assumes "update_prp i f w = (r, w')"
    and "\<And>row. prp_id (f row) = prp_id row \<and> prp_parsed_content (f row) = prp_parsed_content row"
  shows "same_content w w'"
  using assms by (auto simp: update_prp_def same_content_def)

lemma withDatabase_update_content:
  assumes "withDatabase (\<lambda>db. update_prp i (f db) db) w = (r, w')"
    and "\<And>db row. prp_id (f db row) = prp_id row
                   \<and> prp_parsed_content (f db row) = prp_parsed_content row"
  shows "same_content w w'"
proof (cases r)
  case (Inl e)
  with assms(1) show ?thesis by (auto dest: withDatabase_failure same_tables_content)
next
  case (Inr u)
  with assms(1) obtain w0 where "same_tables w w0" and "update_prp i (f w0) w0 = (Inr u, w')"
    by (auto elim: withDatabase_success)
  then show ?thesis
    using update_prp_content [of i "f w0" w0 "Inr u" w'] assms(2)
    by (blast intro: same_content_trans same_tables_content)
qed

lemma mark_keeps_content:
  "prp_id (mark_failed msg row) = prp_id row
     \<and> prp_parsed_content (mark_failed msg row) = prp_parsed_content row"
  "prp_id (mark_synced_after_parse p t row) = prp_id row
     \<and> prp_parsed_content (mark_synced_after_parse p t row) = prp_parsed_content row"
  by (simp_all add: mark_failed_def mark_synced_after_parse_def)

lemma sync_try_content: "sync_try pid d c w = (r, w') \<Longrightarrow> same_content w w'"
  unfolding sync_try_def bind_io_def
  by (auto split: prod.splits sum.splits
           dest!: new_client_tables createDatabasePage_tables
                  withDatabase_update_content [where f = "\<lambda>db. mark_synced_after_parse _ (clock db)",
                                               OF _ mark_keeps_content(2)]
           simp: same_tables_def same_content_def)

lemma record_sync_failure_content:
  "record_sync_failure pid page e w = (r, w') \<Longrightarrow> same_content w w'"
  unfolding record_sync_failure_def bind_io_def return_io_def
  by (auto split: prod.splits sum.splits
           dest!: withDatabase_update_content [where f = "\<lambda>db. mark_failed _",
                                               OF _ mark_keeps_content(1)])

lemma auto_sync_block_content: "auto_sync_block pid d c w = (r, w') \<Longrightarrow> same_content w w'"
  unfolding auto_sync_block_def
  by (auto split: prod.splits sum.splits
           dest!: sync_try_content record_sync_failure_content intro: same_content_trans)

lemma sync_and_respond_success:
  assumes "sync_and_respond dbid auto (md, content, prp) w = (Inr resp, w')"
  shows "same_content w w'"
    and "\<exists>msg out. resp = SuccessResponse msg (ParseData out) \<and> out_prp_id out = prp_id prp
                    \<and> out_task_count out = length (pc_tasks content)"
  using assms
  unfolding sync_and_respond_def bind_io_def return_io_def
  by (auto split: prod.splits sum.splits if_splits dest!: auto_sync_block_content
           simp: same_content_def)

lemma parseYoutubePRP_success:
  assumes "parseYoutubePRP rt login url dbid auto w = (SuccessResponse msg (ParseData out), w1)"
  obtains vid md content prp wa where
    "parse_and_store rt login url vid w = (Inr (md, content, prp), wa)"
    and "same_content wa w1"
    and "out_prp_id out = prp_id prp"
    and "out_task_count out = length (pc_tasks content)"
proof -
  from assms obtain vid where v: "extractVideoId url = Inr vid"
    by (cases "extractVideoId url")
       (auto simp: parseYoutubePRP_def tool_boundary_def parseYoutubePRP_body_def return_io_def)
  with assms have "bind_io (parse_and_store rt login url vid) (sync_and_respond dbid auto) w
                     = (Inr (SuccessResponse msg (ParseData out)), w1)"
    by (auto simp: parseYoutubePRP_def tool_boundary_def parseYoutubePRP_body_def
             split: prod.splits sum.splits)
  then obtain stored wa where ps: "parse_and_store rt login url vid w = (Inr stored, wa)"
    and sr: "sync_and_respond dbid auto stored wa = (Inr (SuccessResponse msg (ParseData out)), w1)"
    by (rule bind_io_InrE)
  obtain md content prp where stored: "stored = (md, content, prp)" by (cases stored) auto
  from sync_and_respond_success [OF sr [unfolded stored]] ps [unfolded stored]
  show thesis using that by auto
qed

lemma gemini_extractTasks_length:
  assumes "gemini_extractTasks rt content k w = (Inr newTasks, w')"
  shows "length newTasks \<le> k"
  using assms
  unfolding gemini_extractTasks_def catch_io_def bind_io_def throw_io_def return_io_def
  by (auto split: prod.splits sum.splits option.splits error.splits ai_json.splits)

lemma extractTasks_success:
  assumes "extractTasks rt login pid k w = (SuccessResponse msg (ExtractData p name m sum_total stored), w')"
  obtains prp wb newTasks where "select_prp pid w = Some prp"
    and "same_tables w wb"
    and "length newTasks \<le> k"
    and "insert_prp_tasks
           (map (extract_task_value pid (length (pc_tasks (prp_parsed_content prp))))
                (enumerate 0 newTasks)) wb = (Inr stored, w')"
    and "m = length stored"
proof -
  from assms have allowed: "login \<in> set ALLOWED_USERNAMES"
    by (auto simp: extractTasks_def tool_boundary_def extractTasks_body_def return_io_def
             split: if_splits)
  with assms have body:
    "bind_io (withDatabase (fetch_prp pid)) (\<lambda>prp.
       bind_io (\<lambda>w. new_client (GEMINI_API_KEY w) ''Gemini API key is required'' w) (\<lambda>u.
       bind_io (gemini_extractTasks rt (prp_parsed_content prp) k) (\<lambda>newTasks.
       bind_io (withDatabase
                  (insert_prp_tasks
                     (map (extract_task_value pid (length (pc_tasks (prp_parsed_content prp))))
                          (enumerate 0 newTasks)))) (\<lambda>storedTasks.
         return_io
           (SuccessResponse
              (''Extracted '' @ digits_of (length storedTasks) @ '' new tasks for PRP '' @ dq
                 @ pc_name (prp_parsed_content prp) @ dq)
              (ExtractData pid (pc_name (prp_parsed_content prp)) (length storedTasks)
                 (length (pc_tasks (prp_parsed_content prp)) + length storedTasks)
                 storedTasks)))))) w
      = (Inr (SuccessResponse msg (ExtractData p name m sum_total stored)), w')"
    by (auto simp: extractTasks_def tool_boundary_def extractTasks_body_def
             split: prod.splits sum.splits)
  then obtain prp w1 w2 newTasks w3 storedTasks
    where f: "withDatabase (fetch_prp pid) w = (Inr prp, w1)"
      and c: "new_client (GEMINI_API_KEY w1) ''Gemini API key is required'' w1 = (Inr (), w2)"
      and g: "gemini_extractTasks rt (prp_parsed_content prp) k w2 = (Inr newTasks, w3)"
      and i: "withDatabase
                (insert_prp_tasks
                   (map (extract_task_value pid (length (pc_tasks (prp_parsed_content prp))))
                        (enumerate 0 newTasks))) w3 = (Inr storedTasks, w')"
      and r: "stored = storedTasks" "m = length storedTasks"
    by (elim bind_io_InrE) (auto simp: return_io_def)
  from f obtain w0 where t0: "same_tables w w0" and "fetch_prp pid w0 = (Inr prp, w1)"
    by (rule withDatabase_success)
  then have sel: "select_prp pid w = Some prp" and t1: "same_tables w w1"
    by (auto simp: fetch_prp_def throw_io_def return_io_def select_prp_def same_tables_def
             split: option.splits)
  from i obtain wb where tb: "same_tables w3 wb"
    and ins: "insert_prp_tasks
                (map (extract_task_value pid (length (pc_tasks (prp_parsed_content prp))))
                     (enumerate 0 newTasks)) wb = (Inr storedTasks, w')"
    by (rule withDatabase_success)
  have "same_tables w wb"
    using t1 new_client_tables [OF c] gemini_extractTasks_tables [OF g] tb
    by (simp add: same_tables_def)
  with sel gemini_extractTasks_length [OF g] ins r show thesis using that by auto
qed

lemma parse_rows_orders:
  "map (task_order_num \<circ> new_task_row i t)
     (enumerate n (map (parse_task_value pid) (enumerate k tasks)))
     = [k + 1 ..< k + length tasks + 1]"
proof (induction tasks arbitrary: n k)
  case Nil
  show ?case by simp
next
  case (Cons x xs)
  have "[k + 1 ..< k + length (x # xs) + 1] = (k + 1) # [Suc k + 1 ..< Suc k + length xs + 1]"
    using upt_conv_Cons [of "k + 1" "k + length (x # xs) + 1"] by simp
  with Cons [of "Suc n" "Suc k"] show ?case
    by (simp add: new_task_row_def parse_task_value_def)
qed

lemma extract_rows_orders:
  "map (task_order_num \<circ> new_task_row i t)
     (enumerate n (map (extract_task_value pid existing) (enumerate k tasks)))
     = [existing + k + 1 ..< existing + k + length tasks + 1]"
proof (induction tasks arbitrary: n k)
  case Nil
  show ?case by simp
next
  case (Cons x xs)
  have "[existing + k + 1 ..< existing + k + length (x # xs) + 1]
          = (existing + k + 1) # [existing + Suc k + 1 ..< existing + Suc k + length xs + 1]"
    using upt_conv_Cons [of "existing + k + 1" "existing + k + length (x # xs) + 1"] by simp
  with Cons [of "Suc n" "Suc k"] show ?case
    by (simp add: new_task_row_def extract_task_value_def)
qed

lemma new_rows_parent:
  "filter (\<lambda>r. task_prp_id r = pid)
     (map (new_task_row i t) (enumerate n (map (parse_task_value pid) xs)))
     = map (new_task_row i t) (enumerate n (map (parse_task_value pid) xs))"
  "filter (\<lambda>r. task_prp_id r = pid)
     (map (new_task_row i t) (enumerate n (map (extract_task_value pid existing) xs)))
     = map (new_task_row i t) (enumerate n (map (extract_task_value pid existing) xs))"
  by (induction xs arbitrary: n;
      simp add: new_task_row_def parse_task_value_def extract_task_value_def split: prod.splits)+

lemma find_in_append:
  "find P (xs @ ys) = (case find P xs of None \<Rightarrow> find P ys | Some x \<Rightarrow> Some x)"
  by (induction xs) simp_all

lemma find_last_key:
  assumes "map (\<lambda>r. (prp_id r, prp_parsed_content r)) rows = ks @ [(i, c)]"
    and "list_all (\<lambda>k. fst k \<noteq> i) ks"
    and "find (\<lambda>r. prp_id r = i) rows = Some r"
  shows "prp_parsed_content r = c"
proof -
  from assms(1) obtain rs r' where rows: "rows = rs @ [r']"
    and rs: "map (\<lambda>r. (prp_id r, prp_parsed_content r)) rs = ks"
    and r': "prp_id r' = i" "prp_parsed_content r' = c"
    by (auto simp: map_eq_append_conv)
  from rs assms(2) have "find (\<lambda>r. prp_id r = i) rs = None"
    by (auto simp: find_None_iff list_all_iff)
  with rows r' assms(3) show ?thesis by (simp add: find_in_append)
qed

lemma old_tasks_of_other_prps:
  assumes "list_all (\<lambda>t. task_prp_id t < pid) rows"
  shows "filter (\<lambda>r. task_prp_id r = pid) rows = []"
  using assms by (induction rows) auto

text \<open>
  The first extractTasks call after the parse continues the numbering of the parse: the
  tasks that parse inserts carry the order values 1..N, the tasks of the call the values
  N+1..N+M, where N is the number of tasks in the stored content of the PRP and M is at
  most max_tasks.
\<close>

lemma task_orders_after_parse_and_one_extract:
  assumes "ids_fresh w"
    and "parseYoutubePRP rt login youtube_url notion_database_id auto_sync w
           = (SuccessResponse msg (ParseData out), w1)"
    and "extractTasks rt login' (out_prp_id out) max_tasks w1
           = (SuccessResponse msg' (ExtractData pid name m sum_total stored), w2)"
  shows "map task_order_num (tasks_of (out_prp_id out) w1) = [1 ..< out_task_count out + 1]
       \<and> map task_order_num stored = [out_task_count out + 1 ..< out_task_count out + m + 1]
       \<and> map task_order_num (tasks_of (out_prp_id out) w2) = [1 ..< out_task_count out + m + 1]
       \<and> m \<le> max_tasks"
proof -
  from assms(2) obtain vid md content prp wa
    where ps: "parse_and_store rt login youtube_url vid w = (Inr (md, content, prp), wa)"
      and ca: "same_content wa w1"
      and oid: "out_prp_id out = prp_id prp"
      and cnt: "out_task_count out = length (pc_tasks content)"
    by (rule parseYoutubePRP_success)
  from ps obtain w0 tr where t0: "same_tables w w0"
    and st: "store_parsed_prp youtube_url vid md tr content login w0 = (Inr prp, wa)"
    by (rule parse_and_store_success)
  note stored_prp = store_parsed_prp_success [OF st]
  define N where "N = length (pc_tasks content)"
  define P where "P = prp_id prp"
  define rowsP where "rowsP = map (new_task_row (Suc (next_uuid w0)) (clock w0))
      (enumerate 0 (map (parse_task_value P) (enumerate 0 (pc_tasks content))))"
  have Pw: "P = next_uuid w" using stored_prp(1) t0 by (simp add: P_def same_tables_def)
  have tasks1: "prp_tasks w1 = prp_tasks w @ rowsP"
    using stored_prp(1,4) ca t0 by (simp add: same_content_def same_tables_def rowsP_def P_def)
  have old: "filter (\<lambda>r. task_prp_id r = P) (prp_tasks w) = []"
    using assms(1) Pw by (intro old_tasks_of_other_prps) (simp add: ids_fresh_def)
  have mineP: "filter (\<lambda>r. task_prp_id r = P) rowsP = rowsP"
    unfolding rowsP_def by (rule new_rows_parent(1))
  have of1: "tasks_of P w1 = rowsP"
    by (simp add: tasks_of_def tasks1 old mineP)
  have ordP: "map task_order_num rowsP = [1 ..< N + 1]"
    using parse_rows_orders [of "Suc (next_uuid w0)" "clock w0" 0 P 0 "pc_tasks content"]
    by (simp add: rowsP_def N_def)
  from assms(3) [unfolded oid] obtain prp' wb newTasks
    where sel: "select_prp P w1 = Some prp'"
      and tb: "same_tables w1 wb"
      and len: "length newTasks \<le> max_tasks"
      and ins: "insert_prp_tasks
                  (map (extract_task_value P (length (pc_tasks (prp_parsed_content prp'))))
                       (enumerate 0 newTasks)) wb = (Inr stored, w2)"
      and m: "m = length stored"
    unfolding P_def by (rule extractTasks_success)
  have keys: "map (\<lambda>r. (prp_id r, prp_parsed_content r)) (parsed_prps w1)
                = map (\<lambda>r. (prp_id r, prp_parsed_content r)) (parsed_prps w) @ [(P, content)]"
    using stored_prp(2,3) ca t0 by (simp add: same_content_def same_tables_def P_def)
  have others: "list_all (\<lambda>k. fst k \<noteq> P)
                  (map (\<lambda>r. (prp_id r, prp_parsed_content r)) (parsed_prps w))"
    using assms(1) Pw by (auto simp: ids_fresh_def list_all_iff)
  have "prp_parsed_content prp' = content"
    using find_last_key [OF keys others] sel by (simp add: select_prp_def)
  then have N': "length (pc_tasks (prp_parsed_content prp')) = N" by (simp add: N_def)
  note inserted = insert_prp_tasks_success [OF ins, unfolded N']
  have stored_eq: "stored = map (new_task_row (next_uuid wb) (clock wb))
                     (enumerate 0 (map (extract_task_value P N) (enumerate 0 newTasks)))"
    using inserted by simp
  have ordS: "map task_order_num stored = [N + 1 ..< N + length newTasks + 1]"
    using extract_rows_orders [of "next_uuid wb" "clock wb" 0 P N 0 newTasks]
    by (simp add: stored_eq)
  have mlen: "m = length newTasks" by (simp add: m stored_eq)
  have mineS: "filter (\<lambda>r. task_prp_id r = P) stored = stored"
    unfolding stored_eq by (rule new_rows_parent(2))
  have "prp_tasks w2 = prp_tasks w1 @ stored"
    using inserted tb by (simp add: same_tables_def)
  then have of2: "tasks_of P w2 = rowsP @ stored"
    using of1 mineS by (simp add: tasks_of_def)
  have "[1 ..< N + 1] @ [N + 1 ..< N + m + 1] = [1 ..< N + m + 1]"
    using upt_add_eq_append [of 1 "N + 1" m] by simp
  with of1 of2 ordP ordS mlen len show ?thesis
    by (simp add: oid cnt P_def [symmetric] N_def [symmetric])
qed

text \<open>
  C2. Evaluation of parseYoutubePRP followed by two extractTasks calls for the PRP it
  stored (two tasks from the parse, one more task from each call). The first call gives
  its task the order value 3. The second call gives its task the order value 3 again
  and reports a total of 3 tasks, while the PRP has four: the count of existing tasks
  is taken from the stored content, which extractTasks does not update, and not from
  the persisted tasks.
\<close>

theorem second_extract_repeats_order_values:
  "map task_order_num
     (tasks_of 1
        (snd (extractTasks example_runtime ''coleam00'' 1 20
                (snd (parseYoutubePRP example_runtime ''coleam00'' example_url None
                        False studio_world)))))
     = [1, 2, 3]
   \<and> map task_order_num
     (tasks_of 1
        (snd (extractTasks example_runtime ''coleam00'' 1 20
                (snd (extractTasks example_runtime ''coleam00'' 1 20
                        (snd (parseYoutubePRP example_runtime ''coleam00'' example_url None
                                False studio_world)))))))
     = [1, 2, 3, 3]
   \<and> fst (extractTasks example_runtime ''coleam00'' 1 20
            (snd (extractTasks example_runtime ''coleam00'' 1 20
                    (snd (parseYoutubePRP example_runtime ''coleam00'' example_url None
                            False studio_world)))))
     = SuccessResponse (''Extracted 1 new tasks for PRP '' @ dq @ ''MCP server'' @ dq)
         (ExtractData 1 ''MCP server'' 1 3
            [\<lparr> task_id = 5, task_prp_id = 1, task_order_num = 3,
                task_title = ''Write the tool'',
                task_description = ''Implement and register it'', task_type = ''review'',
                task_file_path = None, task_pseudocode = None, task_status = pending,
                task_created_at = 100, task_updated_at = 100, task_completed_at = None,
                task_completed_by = None \<rparr>])"
  by code_simp

section \<open>Task types\<close>





















section \<open>The already-synced notice\<close>

lemma sync_page_notice:
  assumes "sync_page pid d u prp existing w = (Inr (Inl notice), w')"
  shows "truthy existing \<and> \<not> u \<and> truthy (prp_notion_page_id prp)"
  using assms
  unfolding sync_page_def bind_io_def return_io_def
  by (auto split: prod.splits sum.splits if_splits)

text \<open>
  The branch of syncToNotion that returns the already-synced notice is never taken: it
  needs a page found by the lookup without an update request, and the lookup is made
  only for an update request or when no page id is stored.
\<close>

lemma already_synced_notice_unreachable:
  "fst (syncToNotion login pid database_id update_existing w)
     \<noteq> ErrorResponse ''PRP already synced to Notion'' details"
proof
  assume a: "fst (syncToNotion login pid database_id update_existing w)
               = ErrorResponse ''PRP already synced to Notion'' details"
  obtain r w' where run: "syncToNotion_body login pid database_id update_existing w = (r, w')"
    by (cases "syncToNotion_body login pid database_id update_existing w")
  with a have r: "r = Inr (ErrorResponse ''PRP already synced to Notion'' details)"
    by (auto simp: syncToNotion_def tool_boundary_def split: sum.splits)
  with run have allowed: "login \<in> set ALLOWED_USERNAMES"
    by (auto simp: syncToNotion_body_def return_io_def split: if_splits)
  from run r allowed obtain prp w1 w2 existing w3 outcome
    where look: "(if update_existing \<or> \<not> truthy (prp_notion_page_id prp)
                  then findPageByPRPId database_id pid else return_io None) w2
                   = (Inr existing, w3)"
      and page: "catch_io (sync_page pid database_id update_existing prp existing)
                   (\<lambda>error. bind_io (withDatabase (update_prp pid (mark_failed (error_message error))))
                               (\<lambda>u. throw_io error)) w3 = (Inr outcome, w')"
      and out: "(case outcome of
                   Inl notice \<Rightarrow> return_io notice
                 | Inr notionPageId \<Rightarrow>
                     return_io
                       (SuccessResponse
                          (''Successfully synced PRP '' @ dq @ pc_name (prp_parsed_content prp) @ dq
                             @ '' to Notion'')
                          (SyncData \<lparr> out_page_id = notionPageId,
                                      out_page_url = ''https://notion.so/''
                                                       @ filter (\<lambda>c. c \<noteq> CHR ''-'') notionPageId,
                                      out_status = synced, out_error = None \<rparr>))) w'
                  = (Inr (ErrorResponse ''PRP already synced to Notion'' details), w')"
    unfolding syncToNotion_body_def
    by (simp, elim bind_io_InrE) (auto simp: return_io_def split: sum.splits)
  from out obtain notice where "outcome = Inl notice"
    by (cases outcome) (auto simp: return_io_def)
  with page have "sync_page pid database_id update_existing prp existing w3 = (Inr (Inl notice), w')"
    by (auto simp: catch_io_def bind_io_def throw_io_def split: prod.splits sum.splits)
  then have "truthy existing" "\<not> update_existing" "truthy (prp_notion_page_id prp)"
    using sync_page_notice by blast+
  with look show False by (simp add: return_io_def truthy_def)
qed


end
